theory Spec2Isabelle
  imports Complex_Main
begin

section \<open>Vapor chamber 1D analytical model: shallow embedding\<close>

text \<open>
  The source is \<^verbatim>\<open>Code/vaporchamer1dcalcs.py\<close>, a single function
  \<^verbatim>\<open>vapor_chamber_model()\<close> that binds its inputs as local constants (sections 1
  and 2 of the function), derives wick and flow geometry (section 3), the capillary
  pressure balance (section 4), the thermal resistance network (section 5) and prints a
  report (section 6).

  Modelling decisions:
  \<^item> Python floats are modelled as \<^typ>\<open>real\<close>; rounding, overflow and NaN are outside the
    model. \<^verbatim>\<open>math.pi\<close>, \<^verbatim>\<open>math.sin\<close>, \<^verbatim>\<open>math.cos\<close> are \<^term>\<open>pi\<close>, \<^term>\<open>sin\<close>,
    \<^term>\<open>cos\<close>; \<^verbatim>\<open>math.radians(x)\<close> is \<open>x * (pi / 180)\<close>.
  \<^item> The local constants of sections 1 and 2 are gathered in the record \<open>config\<close>, which
    the model takes as a parameter; \<open>default_config\<close> holds the values written in the
    source.
  \<^item> Python's \<^verbatim>\<open>/\<close> raises \<^verbatim>\<open>ZeroDivisionError\<close> on a zero divisor. Every division
    of the source is a \<open>py_div\<close>, in statement order; the error carries the source line of
    the statement that raised, as the traceback does.
  \<^item> \<^verbatim>\<open>print\<close> appends a line to the output; a formatted field \<^verbatim>\<open>{x:.2f}\<close> is kept
    as the value and its number of decimals, not rendered to digits.
\<close>

subsection \<open>Errors and division\<close>

datatype error = ZeroDivisionError nat

definition py_div :: "nat \<Rightarrow> real \<Rightarrow> real \<Rightarrow> error + real" where
  "py_div line a b = (if b = 0 then Inl (ZeroDivisionError line) else Inr (a / b))"

definition bind_result :: "error + 'a \<Rightarrow> ('a \<Rightarrow> error + 'b) \<Rightarrow> error + 'b" where
  "bind_result m f = (case m of Inl e \<Rightarrow> Inl e | Inr x \<Rightarrow> f x)"

definition radians :: "real \<Rightarrow> real" where
  "radians x = x * (pi / 180)"

subsection \<open>Sections 1 and 2: model configuration, inputs and fluid properties\<close>

record config =
  T_op :: real
  Q_in :: real
  phi_deg :: real
  filling_ratio :: real
  target_vacuum_Pa :: real
  experimental_correction_factor :: real
  vc_length :: real
  vc_width :: real
  t_evap_wall :: real
  t_cond_wall :: real
  t_vapor :: real
  evap_length :: real
  evap_width :: real
  k_shell :: real
  mesh_number_evap_wpi :: real
  d_w_evap :: real
  num_layers_evap :: int
  mesh_number_cond_wpi :: real
  d_w_cond :: real
  num_layers_cond :: int
  rho_l :: real
  rho_v :: real
  mu_l :: real
  mu_v :: real
  sigma :: real
  h_fg :: real
  k_l :: real
  theta_deg :: real

definition default_config :: config where
  "default_config = \<lparr>
     T_op = 70 + 273.15,
     Q_in = 150,
     phi_deg = 0,
     filling_ratio = 0.30,
     target_vacuum_Pa = 10,
     experimental_correction_factor = 1.2,
     vc_length = 0.070,
     vc_width = 0.070,
     t_evap_wall = 0.00225,
     t_cond_wall = 0.00225,
     t_vapor = 0.00192,
     evap_length = 0.020,
     evap_width = 0.020,
     k_shell = 380,
     mesh_number_evap_wpi = 200,
     d_w_evap = 0.000051,
     num_layers_evap = 5,
     mesh_number_cond_wpi = 80,
     d_w_cond = 0.00015,
     num_layers_cond = 5,
     rho_l = 977.8,
     rho_v = 0.198,
     mu_l = 0.000404,
     mu_v = 0.0000109,
     sigma = 0.0644,
     h_fg = 2330000,
     k_l = 0.668,
     theta_deg = 0 \<rparr>"

subsection \<open>Section 3: derived parameter calculation\<close>

record derived_parameters =
  in_to_m :: real
  mesh_number_evap :: real
  mesh_number_cond :: real
  t_evap_wick :: real
  t_cond_wick :: real
  epsilon_evap :: real
  epsilon_cond :: real
  rc_eff :: real
  K_evap :: real
  K_cond :: real
  L_eff :: real
  internal_area :: real
  vol_vapor_space :: real
  vol_evap_wick_pore :: real
  vol_cond_wick_pore :: real
  vol_internal_total :: real
  liquid_charge_volume_mL :: real
  A_evap :: real
  A_cond :: real
  A_wick_evap :: real
  A_wick_cond :: real
  A_vapor :: real
  d_h_vapor :: real

definition derived_parameter_calculation :: "config \<Rightarrow> error + derived_parameters" where
  "derived_parameter_calculation c =
    (let in_to_m = 0.0254 in
     bind_result (py_div 60 (mesh_number_evap_wpi c) in_to_m) (\<lambda>mesh_number_evap.
     bind_result (py_div 61 (mesh_number_cond_wpi c) in_to_m) (\<lambda>mesh_number_cond.
     let t_evap_wick = 2 * d_w_evap c * of_int (num_layers_evap c);
         t_cond_wick = 2 * d_w_cond c * of_int (num_layers_cond c);
         epsilon_evap = 1 - (pi * mesh_number_evap * d_w_evap c) / 4;
         epsilon_cond = 1 - (pi * mesh_number_cond * d_w_cond c) / 4 in
     bind_result (py_div 70 1 (2 * mesh_number_evap)) (\<lambda>rc_eff.
     bind_result (py_div 71 ((d_w_evap c)\<^sup>2 * epsilon_evap ^ 3)
                            (122 * (1 - epsilon_evap)\<^sup>2)) (\<lambda>K_evap.
     bind_result (py_div 72 ((d_w_cond c)\<^sup>2 * epsilon_cond ^ 3)
                            (122 * (1 - epsilon_cond)\<^sup>2)) (\<lambda>K_cond.
     let L_eff = (vc_length c + evap_length c) / 4;
         internal_area = vc_length c * vc_width c;
         vol_vapor_space = internal_area * t_vapor c;
         vol_evap_wick_pore = internal_area * t_evap_wick * epsilon_evap;
         vol_cond_wick_pore = internal_area * t_cond_wick * epsilon_cond;
         vol_internal_total = vol_vapor_space + vol_evap_wick_pore + vol_cond_wick_pore;
         liquid_charge_volume_mL = (vol_internal_total * filling_ratio c) * 1000000;
         A_evap = evap_length c * evap_width c;
         A_cond = (vc_length c * vc_width c) - A_evap;
         A_wick_evap = t_evap_wick * vc_width c;
         A_wick_cond = t_cond_wick * vc_width c;
         A_vapor = t_vapor c * vc_width c in
     bind_result (py_div 91 (2 * t_vapor c * vc_width c) (t_vapor c + vc_width c)) (\<lambda>d_h_vapor.
     Inr \<lparr> in_to_m = in_to_m,
           mesh_number_evap = mesh_number_evap,
           mesh_number_cond = mesh_number_cond,
           t_evap_wick = t_evap_wick,
           t_cond_wick = t_cond_wick,
           epsilon_evap = epsilon_evap,
           epsilon_cond = epsilon_cond,
           rc_eff = rc_eff,
           K_evap = K_evap,
           K_cond = K_cond,
           L_eff = L_eff,
           internal_area = internal_area,
           vol_vapor_space = vol_vapor_space,
           vol_evap_wick_pore = vol_evap_wick_pore,
           vol_cond_wick_pore = vol_cond_wick_pore,
           vol_internal_total = vol_internal_total,
           liquid_charge_volume_mL = liquid_charge_volume_mL,
           A_evap = A_evap,
           A_cond = A_cond,
           A_wick_evap = A_wick_evap,
           A_wick_cond = A_wick_cond,
           A_vapor = A_vapor,
           d_h_vapor = d_h_vapor \<rparr>)))))))"

subsection \<open>Section 4: capillary performance analysis\<close>

record capillary_performance =
  phi :: real
  theta :: real
  dP_cap :: real
  dP_l_cond :: real
  dP_l_evap :: real
  dP_l :: real
  C_vapor :: real
  dP_v :: real
  g :: real
  dP_g :: real
  dP_total :: real
  vapor_pressure_term :: real
  liquid_pressure_term :: real
  Q_max :: real

definition capillary_performance_analysis ::
  "config \<Rightarrow> derived_parameters \<Rightarrow> error + capillary_performance" where
  "capillary_performance_analysis c p =
    (let phi = radians (phi_deg c);
         theta = radians (theta_deg c) in
     bind_result (py_div 99 (2 * sigma c * cos theta) (rc_eff p)) (\<lambda>dP_cap.
     bind_result (py_div 100 (mu_l c * Q_in c * (L_eff p / 2))
                             (rho_l c * A_wick_cond p * K_cond p * h_fg c)) (\<lambda>dP_l_cond.
     bind_result (py_div 101 (mu_l c * Q_in c * (L_eff p / 2))
                             (rho_l c * A_wick_evap p * K_evap p * h_fg c)) (\<lambda>dP_l_evap.
     let dP_l = dP_l_cond + dP_l_evap;
         C_vapor = 96 in
     bind_result (py_div 104 (C_vapor * mu_v c * Q_in c * L_eff p)
                             (2 * rho_v c * A_vapor p * (d_h_vapor p)\<^sup>2 * h_fg c)) (\<lambda>dP_v.
     let g = 9.81;
         dP_g = rho_l c * g * L_eff p * sin phi;
         dP_total = dP_l + dP_v + dP_g in
     bind_result (py_div 110 (C_vapor * mu_v c * L_eff p)
                             (2 * rho_v c * A_vapor p * (d_h_vapor p)\<^sup>2 * h_fg c))
       (\<lambda>vapor_pressure_term.
     bind_result (py_div 111 (mu_l c * (L_eff p / 2))
                             (rho_l c * A_wick_cond p * K_cond p * h_fg c)) (\<lambda>lpt_cond.
     bind_result (py_div 112 (mu_l c * (L_eff p / 2))
                             (rho_l c * A_wick_evap p * K_evap p * h_fg c)) (\<lambda>lpt_evap.
     let liquid_pressure_term = lpt_cond + lpt_evap in
     bind_result (py_div 113 (dP_cap - dP_g) (liquid_pressure_term + vapor_pressure_term))
       (\<lambda>Q_max.
     Inr \<lparr> phi = phi,
           theta = theta,
           dP_cap = dP_cap,
           dP_l_cond = dP_l_cond,
           dP_l_evap = dP_l_evap,
           dP_l = dP_l,
           C_vapor = C_vapor,
           dP_v = dP_v,
           g = g,
           dP_g = dP_g,
           dP_total = dP_total,
           vapor_pressure_term = vapor_pressure_term,
           liquid_pressure_term = liquid_pressure_term,
           Q_max = Q_max \<rparr>)))))))))"

subsection \<open>Section 5: thermal resistance network analysis\<close>

record thermal_resistance_network =
  k_wick_evap :: real
  k_wick_cond :: real
  R_evap_wall :: real
  R_evap_wick :: real
  R_phase_change :: real
  R_cond_wick :: real
  R_cond_wall :: real
  R_total_ideal :: real
  R_total_corrected :: real

definition thermal_resistance_network_analysis ::
  "config \<Rightarrow> derived_parameters \<Rightarrow> error + thermal_resistance_network" where
  "thermal_resistance_network_analysis c p =
    bind_result (py_div 117 (k_shell c + k_l c + (1 - epsilon_evap p) * (k_shell c - k_l c))
                            (k_shell c + k_l c - (1 - epsilon_evap p) * (k_shell c - k_l c)))
      (\<lambda>ratio_evap.
    let k_wick_evap = k_l c * ratio_evap in
    bind_result (py_div 119 (k_shell c + k_l c + (1 - epsilon_cond p) * (k_shell c - k_l c))
                            (k_shell c + k_l c - (1 - epsilon_cond p) * (k_shell c - k_l c)))
      (\<lambda>ratio_cond.
    let k_wick_cond = k_l c * ratio_cond in
    bind_result (py_div 123 (t_evap_wall c) (k_shell c * A_evap p)) (\<lambda>R_evap_wall.
    bind_result (py_div 124 (t_evap_wick p) (k_wick_evap * A_evap p)) (\<lambda>R_evap_wick.
    let R_phase_change = 0.01 in
    bind_result (py_div 126 (t_cond_wick p) (k_wick_cond * A_cond p)) (\<lambda>R_cond_wick.
    bind_result (py_div 127 (t_cond_wall c) (k_shell c * A_cond p)) (\<lambda>R_cond_wall.
    let R_total_ideal = R_evap_wall + R_evap_wick + R_phase_change + R_cond_wick + R_cond_wall;
        R_total_corrected = R_total_ideal * experimental_correction_factor c in
    Inr \<lparr> k_wick_evap = k_wick_evap,
          k_wick_cond = k_wick_cond,
          R_evap_wall = R_evap_wall,
          R_evap_wick = R_evap_wick,
          R_phase_change = R_phase_change,
          R_cond_wick = R_cond_wick,
          R_cond_wall = R_cond_wall,
          R_total_ideal = R_total_ideal,
          R_total_corrected = R_total_corrected \<rparr>))))))"

subsection \<open>Section 6: results summary\<close>

text \<open>
  One printed line is a list of pieces: literal text, or a number with the count of
  decimals its format asks for (\<^verbatim>\<open>{x:.2f}\<close> is \<open>Fixed x 2\<close>). A trailing
  \<^verbatim>\<open>\n\<close> inside the printed string is kept as a newline character.
\<close>

datatype piece = Lit string | Fixed real nat

type_synonym line = "piece list"

definition results_summary ::
  "config \<Rightarrow> derived_parameters \<Rightarrow> capillary_performance \<Rightarrow> thermal_resistance_network
     \<Rightarrow> line list" where
  "results_summary c p q r =
    [ [Lit ''===================================================='']
    , [Lit ''   VAPOR CHAMBER 1D ANALYTICAL MODEL - RESULTS'']
    , [Lit ''====================================================\<newline>'']
    , [Lit ''--- DERIVED WICK GEOMETRY ---'']
    , [Lit ''Total Evaporator Wick Thickness: '', Fixed (t_evap_wick p * 1000) 2, Lit '' mm'']
    , [Lit ''Total Condenser Wick Thickness:  '', Fixed (t_cond_wick p * 1000) 2,
       Lit '' mm\<newline>'']
    , [Lit ''--- FABRICATION TARGETS ---'']
    , [Lit ''Target Filling Ratio: '', Fixed (filling_ratio c * 100) 0, Lit '' %'']
    , [Lit ''Required Liquid Charge Volume: '', Fixed (liquid_charge_volume_mL p) 4, Lit '' mL'']
    , [Lit ''Target Initial Vacuum: '', Fixed (target_vacuum_Pa c) 2, Lit '' Pa\<newline>'']
    , [Lit ''--- ANALYSIS CONDITIONS ---'']
    , [Lit ''Operating Temperature: '', Fixed (T_op c - 273.15) 1, Lit '' C'']
    , [Lit ''Input Heat Load (Q_in): '', Fixed (Q_in c) 1, Lit '' W'']
    , [Lit ''Orientation Angle: '', Fixed (phi_deg c) 1, Lit '' degrees\<newline>'']
    , [Lit ''--- PRESSURE BALANCE ANALYSIS ---'']
    , [Lit ''Max Capillary Pressure (dP_cap):   '', Fixed (dP_cap q) 2, Lit '' Pa'']
    , [Lit ''Total Pressure Drop (dP_total):    '', Fixed (dP_total q) 2, Lit '' Pa'']
    , [Lit ''  - Liquid Drop (dP_l):            '', Fixed (dP_l q) 2, Lit '' Pa'']
    , [Lit ''  - Vapor Drop (dP_v):             '', Fixed (dP_v q) 2, Lit '' Pa'']
    , [Lit ''  - Gravity Drop (dP_g):           '', Fixed (dP_g q) 2, Lit '' Pa\<newline>'']
    , [Lit ''--- PREDICTED PERFORMANCE METRICS ---''] ]
    @ (if dP_cap q \<ge> dP_total q
       then [ [Lit ''YES! CAPILLARY LIMIT: MET for the specified heat load ('',
               Fixed (Q_in c) 1, Lit '' W).''] ]
       else [ [Lit ''NO! CAPILLARY LIMIT: FAILED. Wick cannot sustain the required flow.'']
            , [Lit ''   The design is limited to Q_max = '', Fixed (Q_max q) 1,
               Lit '' W under these conditions.''] ])
    @ [ [Lit ''Maximum Heat Transport (Q_max): '', Fixed (Q_max q) 1, Lit '' W'']
      , [Lit ''Ideal Thermal Resistance (R_ideal): '', Fixed (R_total_ideal r) 4, Lit '' K/W'']
      , [Lit ''Corrected Thermal Resistance (R_corrected): '', Fixed (R_total_corrected r) 4,
         Lit '' K/W''] ]
    @ (let delta_T = Q_in c * R_total_corrected r in
       [ [Lit (''Predicted Corrected Temp. Drop (''
               @ [CHR 0xC3, CHR 0x8E, CHR 0xE2, CHR 0x80, CHR 0x9D] @ ''T): ''),
          Fixed delta_T 2, Lit '' C\<newline>''] ])"

subsection \<open>The whole function\<close>

text \<open>
  The result of a run that raises nothing: the locals of sections 3 to 5 and the lines
  printed by section 6. Every division precedes the first \<^verbatim>\<open>print\<close>, so a run that
  raises prints nothing.
\<close>

record derived_state =
  parameters :: derived_parameters
  capillary :: capillary_performance
  thermal :: thermal_resistance_network
  printed :: "line list"

definition vapor_chamber_model :: "config \<Rightarrow> error + derived_state" where
  "vapor_chamber_model c =
    bind_result (derived_parameter_calculation c) (\<lambda>p.
    bind_result (capillary_performance_analysis c p) (\<lambda>q.
    bind_result (thermal_resistance_network_analysis c p) (\<lambda>r.
    Inr \<lparr> parameters = p, capillary = q, thermal = r,
          printed = results_summary c p q r \<rparr>)))"

subsection \<open>Notions used to state the properties\<close>

text \<open>
  The porosity of each wick as a function of the configuration (lines 60, 61, 68 and 69
  of the source composed), and the configurations the data model calls valid: every
  geometric and material input strictly positive, the heat-source footprint smaller than
  the chamber, and both porosities strictly between 0 and 1.
\<close>

definition porosity_evap :: "config \<Rightarrow> real" where
  "porosity_evap c = 1 - (pi * (mesh_number_evap_wpi c / 0.0254) * d_w_evap c) / 4"

definition porosity_cond :: "config \<Rightarrow> real" where
  "porosity_cond c = 1 - (pi * (mesh_number_cond_wpi c / 0.0254) * d_w_cond c) / 4"

definition valid_config :: "config \<Rightarrow> bool" where
  "valid_config c \<longleftrightarrow>
     0 < vc_length c \<and> 0 < vc_width c \<and> 0 < t_evap_wall c \<and> 0 < t_cond_wall c \<and>
     0 < t_vapor c \<and> 0 < evap_length c \<and> 0 < evap_width c \<and>
     evap_length c * evap_width c < vc_length c * vc_width c \<and>
     0 < k_shell c \<and>
     0 < mesh_number_evap_wpi c \<and> 0 < d_w_evap c \<and> 0 < num_layers_evap c \<and>
     0 < mesh_number_cond_wpi c \<and> 0 < d_w_cond c \<and> 0 < num_layers_cond c \<and>
     0 < rho_l c \<and> 0 < rho_v c \<and> 0 < mu_l c \<and> 0 < mu_v c \<and> 0 < sigma c \<and>
     0 < h_fg c \<and> 0 < k_l c \<and>
     0 < porosity_evap c \<and> porosity_evap c < 1 \<and>
     0 < porosity_cond c \<and> porosity_cond c < 1"

text \<open>
  The lines of the divisions of section 5, the thermal resistance stage.
\<close>

definition resistance_stage_lines :: "nat set" where
  "resistance_stage_lines = {117, 119, 123, 124, 126, 127}"

section \<open>Basic facts about the stages\<close>

subsection \<open>Division and sequencing\<close>

lemma bind_result_simps [simp]:
  "bind_result (Inl e) f = Inl e" "bind_result (Inr x) f = f x"
  by (simp_all add: bind_result_def)

lemma py_div_nonzero: "b \<noteq> 0 \<Longrightarrow> py_div l a b = Inr (a / b)"
  by (simp add: py_div_def)

lemma py_div_zero: "py_div l a 0 = Inl (ZeroDivisionError l)"
  by (simp add: py_div_def)

subsection \<open>What a completed stage has computed\<close>

text \<open>
  Each conclusion is the right-hand side of one assignment of the source, with the
  divisors that were tested on the way.
\<close>

lemma dpc_fields:
  assumes "derived_parameter_calculation c = Inr p"
  shows "in_to_m p = 0.0254"
    and "mesh_number_evap p = mesh_number_evap_wpi c / in_to_m p"
    and "mesh_number_cond p = mesh_number_cond_wpi c / in_to_m p"
    and "t_evap_wick p = 2 * d_w_evap c * of_int (num_layers_evap c)"
    and "t_cond_wick p = 2 * d_w_cond c * of_int (num_layers_cond c)"
    and "epsilon_evap p = 1 - (pi * mesh_number_evap p * d_w_evap c) / 4"
    and "epsilon_cond p = 1 - (pi * mesh_number_cond p * d_w_cond c) / 4"
    and "rc_eff p = 1 / (2 * mesh_number_evap p)"
    and "K_evap p = ((d_w_evap c)\<^sup>2 * epsilon_evap p ^ 3) / (122 * (1 - epsilon_evap p)\<^sup>2)"
    and "K_cond p = ((d_w_cond c)\<^sup>2 * epsilon_cond p ^ 3) / (122 * (1 - epsilon_cond p)\<^sup>2)"
    and "L_eff p = (vc_length c + evap_length c) / 4"
    and "A_evap p = evap_length c * evap_width c"
    and "A_cond p = (vc_length c * vc_width c) - A_evap p"
    and "A_wick_evap p = t_evap_wick p * vc_width c"
    and "A_wick_cond p = t_cond_wick p * vc_width c"
    and "A_vapor p = t_vapor c * vc_width c"
    and "d_h_vapor p = (2 * t_vapor c * vc_width c) / (t_vapor c + vc_width c)"
    and "mesh_number_evap p \<noteq> 0"
    and "epsilon_evap p \<noteq> 1"
    and "epsilon_cond p \<noteq> 1"
    and "t_vapor c + vc_width c \<noteq> 0"
  using assms
  by (auto simp: derived_parameter_calculation_def py_div_def Let_def split: if_splits)

lemma cpa_fields:
  assumes "capillary_performance_analysis c p = Inr q"
  shows "phi q = radians (phi_deg c)"
    and "theta q = radians (theta_deg c)"
    and "dP_cap q = (2 * sigma c * cos (theta q)) / rc_eff p"
    and "dP_l_cond q = (mu_l c * Q_in c * (L_eff p / 2)) / (rho_l c * A_wick_cond p * K_cond p * h_fg c)"
    and "dP_l_evap q = (mu_l c * Q_in c * (L_eff p / 2)) / (rho_l c * A_wick_evap p * K_evap p * h_fg c)"
    and "dP_l q = dP_l_cond q + dP_l_evap q"
    and "C_vapor q = 96"
    and "dP_v q = (C_vapor q * mu_v c * Q_in c * L_eff p) / (2 * rho_v c * A_vapor p * (d_h_vapor p)\<^sup>2 * h_fg c)"
    and "g q = 9.81"
    and "dP_g q = rho_l c * g q * L_eff p * sin (phi q)"
    and "dP_total q = dP_l q + dP_v q + dP_g q"
    and "vapor_pressure_term q = (C_vapor q * mu_v c * L_eff p) / (2 * rho_v c * A_vapor p * (d_h_vapor p)\<^sup>2 * h_fg c)"
    and "liquid_pressure_term q = ((mu_l c * (L_eff p / 2)) / (rho_l c * A_wick_cond p * K_cond p * h_fg c)) +
                       ((mu_l c * (L_eff p / 2)) / (rho_l c * A_wick_evap p * K_evap p * h_fg c))"
    and "Q_max q = (dP_cap q - dP_g q) / (liquid_pressure_term q + vapor_pressure_term q)"
    and "rc_eff p \<noteq> 0"
    and "rho_l c * A_wick_cond p * K_cond p * h_fg c \<noteq> 0"
    and "rho_l c * A_wick_evap p * K_evap p * h_fg c \<noteq> 0"
    and "2 * rho_v c * A_vapor p * (d_h_vapor p)\<^sup>2 * h_fg c \<noteq> 0"
    and "liquid_pressure_term q + vapor_pressure_term q \<noteq> 0"
  using assms
  by (auto simp: capillary_performance_analysis_def py_div_def Let_def split: if_splits)

lemma trn_fields:
  assumes "thermal_resistance_network_analysis c p = Inr r"
  shows "k_wick_evap r = k_l c * ((k_shell c + k_l c + (1 - epsilon_evap p) * (k_shell c - k_l c)) /
                         (k_shell c + k_l c - (1 - epsilon_evap p) * (k_shell c - k_l c)))"
    and "k_wick_cond r = k_l c * ((k_shell c + k_l c + (1 - epsilon_cond p) * (k_shell c - k_l c)) /
                         (k_shell c + k_l c - (1 - epsilon_cond p) * (k_shell c - k_l c)))"
    and "R_evap_wall r = t_evap_wall c / (k_shell c * A_evap p)"
    and "R_evap_wick r = t_evap_wick p / (k_wick_evap r * A_evap p)"
    and "R_phase_change r = 0.01"
    and "R_cond_wick r = t_cond_wick p / (k_wick_cond r * A_cond p)"
    and "R_cond_wall r = t_cond_wall c / (k_shell c * A_cond p)"
    and "R_total_ideal r = R_evap_wall r + R_evap_wick r + R_phase_change r + R_cond_wick r + R_cond_wall r"
    and "R_total_corrected r = R_total_ideal r * experimental_correction_factor c"
  using assms
  by (auto simp: thermal_resistance_network_analysis_def py_div_def Let_def split: if_splits)

lemma model_stages:
  assumes "vapor_chamber_model c = Inr d"
  shows "derived_parameter_calculation c = Inr (parameters d)"
    and "capillary_performance_analysis c (parameters d) = Inr (capillary d)"
    and "thermal_resistance_network_analysis c (parameters d) = Inr (thermal d)"
    and "printed d = results_summary c (parameters d) (capillary d) (thermal d)"
  using assms
  by (auto simp: vapor_chamber_model_def bind_result_def split: sum.splits)

lemma model_from_stages:
  assumes "derived_parameter_calculation c = Inr p"
    and "capillary_performance_analysis c p = Inr q"
    and "thermal_resistance_network_analysis c p = Inr r"
  shows "vapor_chamber_model c =
           Inr \<lparr> parameters = p, capillary = q, thermal = r,
                 printed = results_summary c p q r \<rparr>"
  using assms by (simp add: vapor_chamber_model_def)

lemma dpc_porosity:
  assumes "derived_parameter_calculation c = Inr p"
  shows "epsilon_evap p = porosity_evap c" and "epsilon_cond p = porosity_cond c"
  by (simp_all only: porosity_evap_def porosity_cond_def dpc_fields(1,2,3,6,7)[OF assms])

subsection \<open>When a stage completes, and where it raises\<close>

lemma dpc_success:
  assumes "mesh_number_evap_wpi c \<noteq> 0"
    and "1 - (pi * (mesh_number_evap_wpi c / 0.0254) * d_w_evap c) / 4 \<noteq> 1"
    and "1 - (pi * (mesh_number_cond_wpi c / 0.0254) * d_w_cond c) / 4 \<noteq> 1"
    and "t_vapor c + vc_width c \<noteq> 0"
  shows "\<exists>p. derived_parameter_calculation c = Inr p"
  using assms
  by (simp add: derived_parameter_calculation_def py_div_def Let_def)

lemma cpa_success:
  assumes "rc_eff p \<noteq> 0"
    and "rho_l c * A_wick_cond p * K_cond p * h_fg c \<noteq> 0"
    and "rho_l c * A_wick_evap p * K_evap p * h_fg c \<noteq> 0"
    and "2 * rho_v c * A_vapor p * (d_h_vapor p)\<^sup>2 * h_fg c \<noteq> 0"
    and "((mu_l c * (L_eff p / 2)) / (rho_l c * A_wick_cond p * K_cond p * h_fg c)) +
         ((mu_l c * (L_eff p / 2)) / (rho_l c * A_wick_evap p * K_evap p * h_fg c)) +
         (96 * mu_v c * L_eff p) / (2 * rho_v c * A_vapor p * (d_h_vapor p)\<^sup>2 * h_fg c) \<noteq> 0"
  shows "\<exists>q. capillary_performance_analysis c p = Inr q"
  using assms
  by (simp add: capillary_performance_analysis_def py_div_def Let_def)

lemma trn_success:
  assumes "k_shell c + k_l c - (1 - epsilon_evap p) * (k_shell c - k_l c) \<noteq> 0"
    and "k_shell c + k_l c - (1 - epsilon_cond p) * (k_shell c - k_l c) \<noteq> 0"
    and "k_shell c * A_evap p \<noteq> 0"
    and "k_l c * ((k_shell c + k_l c + (1 - epsilon_evap p) * (k_shell c - k_l c)) /
                         (k_shell c + k_l c - (1 - epsilon_evap p) * (k_shell c - k_l c))) * A_evap p \<noteq> 0"
    and "k_l c * ((k_shell c + k_l c + (1 - epsilon_cond p) * (k_shell c - k_l c)) /
                         (k_shell c + k_l c - (1 - epsilon_cond p) * (k_shell c - k_l c))) * A_cond p \<noteq> 0"
    and "k_shell c * A_cond p \<noteq> 0"
  shows "\<exists>r. thermal_resistance_network_analysis c p = Inr r"
  using assms
  by (simp add: thermal_resistance_network_analysis_def py_div_def Let_def)

lemma model_Inl_dpc:
  "derived_parameter_calculation c = Inl e \<Longrightarrow> vapor_chamber_model c = Inl e"
  by (simp add: vapor_chamber_model_def)

lemma model_Inl_cpa:
  "derived_parameter_calculation c = Inr p \<Longrightarrow> capillary_performance_analysis c p = Inl e
     \<Longrightarrow> vapor_chamber_model c = Inl e"
  by (simp add: vapor_chamber_model_def)

lemma dpc_error_lines:
  assumes "derived_parameter_calculation c = Inl e"
  shows "e = ZeroDivisionError 70 \<or> e = ZeroDivisionError 71 \<or> e = ZeroDivisionError 72
         \<or> e = ZeroDivisionError 91"
  using assms
  by (auto simp: derived_parameter_calculation_def py_div_def Let_def split: if_splits)

lemma dpc_porosity_one:
  assumes "porosity_evap c = 1 \<or> porosity_cond c = 1"
  shows "derived_parameter_calculation c = Inl (ZeroDivisionError 70)
       \<or> derived_parameter_calculation c = Inl (ZeroDivisionError 71)
       \<or> derived_parameter_calculation c = Inl (ZeroDivisionError 72)"
  using assms
  by (auto simp: derived_parameter_calculation_def py_div_def Let_def
                 porosity_evap_def porosity_cond_def)

lemma cpa_zero_divisor:
  assumes "rho_l c * A_wick_cond p * K_cond p * h_fg c = 0
         \<or> rho_l c * A_wick_evap p * K_evap p * h_fg c = 0"
    and "rc_eff p \<noteq> 0"
  shows "capillary_performance_analysis c p = Inl (ZeroDivisionError 100)
       \<or> capillary_performance_analysis c p = Inl (ZeroDivisionError 101)"
  using assms
  by (auto simp: capillary_performance_analysis_def py_div_def Let_def)

lemma cpa_raises_100:
  assumes "rc_eff p \<noteq> 0" "A_wick_cond p = 0"
  shows "capillary_performance_analysis c p = Inl (ZeroDivisionError 100)"
  using assms by (simp add: capillary_performance_analysis_def py_div_def Let_def)

lemma cpa_raises_101:
  assumes "rc_eff p \<noteq> 0" "rho_l c * A_wick_cond p * K_cond p * h_fg c \<noteq> 0"
    "A_wick_evap p = 0"
  shows "capillary_performance_analysis c p = Inl (ZeroDivisionError 101)"
  using assms by (simp add: capillary_performance_analysis_def py_div_def Let_def)

section \<open>Valid configurations run to completion\<close>

lemma K_pos:
  fixes w e :: real
  assumes "0 < w" "0 < e" "e \<noteq> 1"
  shows "0 < w\<^sup>2 * e ^ 3 / (122 * (1 - e)\<^sup>2)"
proof (rule divide_pos_pos)
  show "0 < w\<^sup>2 * e ^ 3" using assms(1,2) by simp
  show "0 < 122 * (1 - e)\<^sup>2" using assms(3) by simp
qed

lemma wick_conductivity_terms:
  fixes ks kl e :: real
  assumes "0 < ks" "0 < kl" "0 < e" "e < 1"
  shows "0 < ks + kl - (1 - e) * (ks - kl)" and "0 < ks + kl + (1 - e) * (ks - kl)"
proof -
  have 1: "ks + kl - (1 - e) * (ks - kl) = e * ks + (2 - e) * kl" by (simp add: algebra_simps)
  have 2: "ks + kl + (1 - e) * (ks - kl) = (2 - e) * ks + e * kl" by (simp add: algebra_simps)
  have "0 < e * ks" "0 < (2 - e) * kl" "0 < (2 - e) * ks" "0 < e * kl"
    using assms by simp_all
  then show "0 < ks + kl - (1 - e) * (ks - kl)" and "0 < ks + kl + (1 - e) * (ks - kl)"
    unfolding 1 2 by linarith+
qed

lemma valid_dpc:
  assumes "valid_config c"
  shows "\<exists>p. derived_parameter_calculation c = Inr p"
proof (rule dpc_success)
  show "mesh_number_evap_wpi c \<noteq> 0" using assms by (simp add: valid_config_def)
  show "1 - (pi * (mesh_number_evap_wpi c / 0.0254) * d_w_evap c) / 4 \<noteq> 1"
    using assms unfolding valid_config_def porosity_evap_def by linarith
  show "1 - (pi * (mesh_number_cond_wpi c / 0.0254) * d_w_cond c) / 4 \<noteq> 1"
    using assms unfolding valid_config_def porosity_cond_def by linarith
  show "t_vapor c + vc_width c \<noteq> 0" using assms unfolding valid_config_def by linarith
qed

lemma valid_dpc_pos:
  assumes v: "valid_config c" and run: "derived_parameter_calculation c = Inr p"
  shows "0 < epsilon_evap p" "epsilon_evap p < 1" "0 < epsilon_cond p" "epsilon_cond p < 1"
    and "0 < mesh_number_evap p" "0 < rc_eff p"
    and "0 < K_evap p" "0 < K_cond p" "0 < L_eff p"
    and "0 < A_evap p" "0 < A_cond p" "0 < A_wick_evap p" "0 < A_wick_cond p"
    and "0 < A_vapor p" "0 < d_h_vapor p" "0 < t_evap_wick p" "0 < t_cond_wick p"
proof -
  note f = dpc_fields[OF run]
  show e1: "0 < epsilon_evap p" and e2: "epsilon_evap p < 1"
    and e3: "0 < epsilon_cond p" and e4: "epsilon_cond p < 1"
    using v dpc_porosity[OF run] by (simp_all add: valid_config_def)
  show m: "0 < mesh_number_evap p" using v f(1,2) by (simp add: valid_config_def)
  show "0 < rc_eff p" using m f(8) by simp
  have "0 < (d_w_evap c)\<^sup>2 * epsilon_evap p ^ 3" using v e1 by (simp add: valid_config_def)
  moreover have "0 < 122 * (1 - epsilon_evap p)\<^sup>2" using e2 by simp
  ultimately show "0 < K_evap p" using f(9) by simp
  have "0 < (d_w_cond c)\<^sup>2 * epsilon_cond p ^ 3" using v e3 by (simp add: valid_config_def)
  moreover have "0 < 122 * (1 - epsilon_cond p)\<^sup>2" using e4 by simp
  ultimately show "0 < K_cond p" using f(10) by simp
  show "0 < L_eff p" using v f(11) by (simp add: valid_config_def)
  show "0 < A_evap p" using v f(12) by (simp add: valid_config_def)
  show "0 < A_cond p" using v f(12,13) by (simp add: valid_config_def)
  show te: "0 < t_evap_wick p" using v f(4) by (simp add: valid_config_def)
  show tc: "0 < t_cond_wick p" using v f(5) by (simp add: valid_config_def)
  show "0 < A_wick_evap p" using v te f(14) by (simp add: valid_config_def)
  show "0 < A_wick_cond p" using v tc f(15) by (simp add: valid_config_def)
  show "0 < A_vapor p" using v f(16) by (simp add: valid_config_def)
  have "0 < 2 * t_vapor c * vc_width c" "0 < t_vapor c + vc_width c"
    using v by (simp_all add: valid_config_def)
  then show "0 < d_h_vapor p" using f(17) by simp
qed

lemma valid_cpa_terms:
  assumes v: "valid_config c" and run: "derived_parameter_calculation c = Inr p"
  shows "0 < rho_l c * A_wick_cond p * K_cond p * h_fg c"
    and "0 < rho_l c * A_wick_evap p * K_evap p * h_fg c"
    and "0 < 2 * rho_v c * A_vapor p * (d_h_vapor p)\<^sup>2 * h_fg c"
    and "0 < mu_l c * (L_eff p / 2)"
    and "0 < mu_v c * L_eff p"
proof -
  note pos = valid_dpc_pos[OF v run]
  have r: "0 < rho_l c" "0 < rho_v c" "0 < h_fg c" "0 < mu_l c" "0 < mu_v c"
    using v by (simp_all add: valid_config_def)
  show "0 < rho_l c * A_wick_cond p * K_cond p * h_fg c"
    using r pos by simp
  show "0 < rho_l c * A_wick_evap p * K_evap p * h_fg c"
    using r pos by simp
  show "0 < 2 * rho_v c * A_vapor p * (d_h_vapor p)\<^sup>2 * h_fg c"
    using r pos by simp
  show "0 < mu_l c * (L_eff p / 2)" using r pos by simp
  show "0 < mu_v c * L_eff p" using r pos by simp
qed

lemma valid_cpa:
  assumes v: "valid_config c" and run: "derived_parameter_calculation c = Inr p"
  shows "\<exists>q. capillary_performance_analysis c p = Inr q"
proof (rule cpa_success)
  note pos = valid_dpc_pos[OF v run] and t = valid_cpa_terms[OF v run]
  show "rc_eff p \<noteq> 0" using pos(6) by linarith
  show "rho_l c * A_wick_cond p * K_cond p * h_fg c \<noteq> 0" using t(1) by linarith
  show "rho_l c * A_wick_evap p * K_evap p * h_fg c \<noteq> 0" using t(2) by linarith
  show "2 * rho_v c * A_vapor p * (d_h_vapor p)\<^sup>2 * h_fg c \<noteq> 0" using t(3) by linarith
  have a: "0 < (mu_l c * (L_eff p / 2)) / (rho_l c * A_wick_cond p * K_cond p * h_fg c)"
    using t(1,4) by (rule_tac divide_pos_pos)
  have b: "0 < (mu_l c * (L_eff p / 2)) / (rho_l c * A_wick_evap p * K_evap p * h_fg c)"
    using t(2,4) by (rule_tac divide_pos_pos)
  have "0 < 96 * mu_v c * L_eff p" using t(5) by simp
  then have d: "0 < (96 * mu_v c * L_eff p) / (2 * rho_v c * A_vapor p * (d_h_vapor p)\<^sup>2 * h_fg c)"
    using t(3) by (rule_tac divide_pos_pos)
  show "((mu_l c * (L_eff p / 2)) / (rho_l c * A_wick_cond p * K_cond p * h_fg c)) +
         ((mu_l c * (L_eff p / 2)) / (rho_l c * A_wick_evap p * K_evap p * h_fg c)) +
         (96 * mu_v c * L_eff p) / (2 * rho_v c * A_vapor p * (d_h_vapor p)\<^sup>2 * h_fg c) \<noteq> 0"
    using a b d by linarith
qed

lemma valid_cpa_pos:
  assumes v: "valid_config c" and run: "derived_parameter_calculation c = Inr p"
    and cap: "capillary_performance_analysis c p = Inr q"
  shows "0 < liquid_pressure_term q" and "0 < vapor_pressure_term q"
proof -
  note t = valid_cpa_terms[OF v run] and f = cpa_fields[OF cap]
  have a: "0 < (mu_l c * (L_eff p / 2)) / (rho_l c * A_wick_cond p * K_cond p * h_fg c)"
    using t(1,4) by (rule_tac divide_pos_pos)
  have b: "0 < (mu_l c * (L_eff p / 2)) / (rho_l c * A_wick_evap p * K_evap p * h_fg c)"
    using t(2,4) by (rule_tac divide_pos_pos)
  show "0 < liquid_pressure_term q" unfolding f(13) using a b by linarith
  have "0 < C_vapor q * mu_v c * L_eff p" unfolding f(7) using t(5) by simp
  then show "0 < vapor_pressure_term q" unfolding f(12)
    using t(3) by (rule_tac divide_pos_pos)
qed

lemma valid_trn_terms:
  assumes v: "valid_config c" and run: "derived_parameter_calculation c = Inr p"
  shows "0 < k_shell c + k_l c - (1 - epsilon_evap p) * (k_shell c - k_l c)"
    and "0 < k_shell c + k_l c - (1 - epsilon_cond p) * (k_shell c - k_l c)"
    and "0 < k_shell c + k_l c + (1 - epsilon_evap p) * (k_shell c - k_l c)"
    and "0 < k_shell c + k_l c + (1 - epsilon_cond p) * (k_shell c - k_l c)"
proof -
  note pos = valid_dpc_pos[OF v run]
  have k: "0 < k_shell c" "0 < k_l c" using v by (simp_all add: valid_config_def)
  have mix: "0 < e \<Longrightarrow> e < 1 \<Longrightarrow> 0 < k_shell c + k_l c - (1 - e) * (k_shell c - k_l c) \<and>
             0 < k_shell c + k_l c + (1 - e) * (k_shell c - k_l c)" for e :: real
  proof -
    assume e: "0 < e" "e < 1"
    have 1: "k_shell c + k_l c - (1 - e) * (k_shell c - k_l c) = e * k_shell c + (2 - e) * k_l c"
      by (simp add: algebra_simps)
    have 2: "k_shell c + k_l c + (1 - e) * (k_shell c - k_l c) = (2 - e) * k_shell c + e * k_l c"
      by (simp add: algebra_simps)
    have "0 < e * k_shell c" "0 < (2 - e) * k_l c" "0 < (2 - e) * k_shell c" "0 < e * k_l c"
      using e k by simp_all
    then show ?thesis unfolding 1 2 by linarith
  qed
  show "0 < k_shell c + k_l c - (1 - epsilon_evap p) * (k_shell c - k_l c)"
    and "0 < k_shell c + k_l c + (1 - epsilon_evap p) * (k_shell c - k_l c)"
    using mix[OF pos(1,2)] by simp_all
  show "0 < k_shell c + k_l c - (1 - epsilon_cond p) * (k_shell c - k_l c)"
    and "0 < k_shell c + k_l c + (1 - epsilon_cond p) * (k_shell c - k_l c)"
    using mix[OF pos(3,4)] by simp_all
qed

lemma valid_trn:
  assumes v: "valid_config c" and run: "derived_parameter_calculation c = Inr p"
  shows "\<exists>r. thermal_resistance_network_analysis c p = Inr r"
proof (rule trn_success)
  note pos = valid_dpc_pos[OF v run] and t = valid_trn_terms[OF v run]
  have k: "0 < k_shell c" "0 < k_l c" using v by (simp_all add: valid_config_def)
  show "k_shell c + k_l c - (1 - epsilon_evap p) * (k_shell c - k_l c) \<noteq> 0" using t(1) by linarith
  show "k_shell c + k_l c - (1 - epsilon_cond p) * (k_shell c - k_l c) \<noteq> 0" using t(2) by linarith
  show "k_shell c * A_evap p \<noteq> 0" using k pos by simp
  show "k_shell c * A_cond p \<noteq> 0" using k pos by simp
  have "0 < (k_shell c + k_l c + (1 - epsilon_evap p) * (k_shell c - k_l c)) /
            (k_shell c + k_l c - (1 - epsilon_evap p) * (k_shell c - k_l c))"
    using t(3,1) by (rule divide_pos_pos)
  then have "0 < k_l c * ((k_shell c + k_l c + (1 - epsilon_evap p) * (k_shell c - k_l c)) /
            (k_shell c + k_l c - (1 - epsilon_evap p) * (k_shell c - k_l c))) * A_evap p"
    using k pos(10) by (intro mult_pos_pos)
  then show "k_l c * ((k_shell c + k_l c + (1 - epsilon_evap p) * (k_shell c - k_l c)) /
            (k_shell c + k_l c - (1 - epsilon_evap p) * (k_shell c - k_l c))) * A_evap p \<noteq> 0"
    by linarith
  have "0 < (k_shell c + k_l c + (1 - epsilon_cond p) * (k_shell c - k_l c)) /
            (k_shell c + k_l c - (1 - epsilon_cond p) * (k_shell c - k_l c))"
    using t(4,2) by (rule divide_pos_pos)
  then have "0 < k_l c * ((k_shell c + k_l c + (1 - epsilon_cond p) * (k_shell c - k_l c)) /
            (k_shell c + k_l c - (1 - epsilon_cond p) * (k_shell c - k_l c))) * A_cond p"
    using k pos(11) by (intro mult_pos_pos)
  then show "k_l c * ((k_shell c + k_l c + (1 - epsilon_cond p) * (k_shell c - k_l c)) /
            (k_shell c + k_l c - (1 - epsilon_cond p) * (k_shell c - k_l c))) * A_cond p \<noteq> 0"
    by linarith
qed

lemma valid_config_runs:
  assumes "valid_config c"
  shows "\<exists>d. vapor_chamber_model c = Inr d"
proof -
  obtain p where p: "derived_parameter_calculation c = Inr p"
    using valid_dpc[OF assms] by blast
  obtain q where q: "capillary_performance_analysis c p = Inr q"
    using valid_cpa[OF assms p] by blast
  obtain r where r: "thermal_resistance_network_analysis c p = Inr r"
    using valid_trn[OF assms p] by blast
  show ?thesis using model_from_stages[OF p q r] by blast
qed

lemma valid_config_phi_deg [simp]: "valid_config (c\<lparr>phi_deg := x\<rparr>) = valid_config c"
  by (simp add: valid_config_def porosity_evap_def porosity_cond_def)

lemma valid_config_Q_in [simp]: "valid_config (c\<lparr>Q_in := x\<rparr>) = valid_config c"
  by (simp add: valid_config_def porosity_evap_def porosity_cond_def)

subsection \<open>The shipped configuration and two variants of it\<close>

lemma default_porosity:
  "porosity_evap default_config = 1 - pi * (2550 / 25400)"
  "porosity_cond default_config = 1 - pi * (3000 / 25400)"
  by (simp_all add: porosity_evap_def porosity_cond_def default_config_def)

lemma default_config_fields:
  "Q_in default_config = 150" "phi_deg default_config = 0" "theta_deg default_config = 0"
  "vc_length default_config = 0.070" "vc_width default_config = 0.070"
  "t_vapor default_config = 0.00192" "evap_length default_config = 0.020"
  "mesh_number_evap_wpi default_config = 200" "d_w_evap default_config = 0.000051"
  "num_layers_evap default_config = 5" "d_w_cond default_config = 0.00015"
  "num_layers_cond default_config = 5" "rho_l default_config = 977.8"
  "rho_v default_config = 0.198" "mu_l default_config = 0.000404"
  "mu_v default_config = 0.0000109" "sigma default_config = 0.0644"
  "h_fg default_config = 2330000"
  by (simp_all add: default_config_def)

lemma default_config_valid: "valid_config default_config"
proof -
  have e: "porosity_evap default_config = 1 - pi * (2550 / 25400)"
    by (simp add: porosity_evap_def default_config_def)
  have c: "porosity_cond default_config = 1 - pi * (3000 / 25400)"
    by (simp add: porosity_cond_def default_config_def)
  have "0 < pi * (2550 / 25400)" "pi * (2550 / 25400) < 1"
       "0 < pi * (3000 / 25400)" "pi * (3000 / 25400) < 1"
    using pi_gt_zero pi_less_4 by simp_all
  then have "0 < porosity_evap default_config \<and> porosity_evap default_config < 1 \<and>
             0 < porosity_cond default_config \<and> porosity_cond default_config < 1"
    unfolding e c by linarith
  then show ?thesis
    by (simp add: valid_config_def) (simp add: default_config_def)
qed

lemma valid_config_cond_mesh:
  "valid_config (default_config\<lparr>mesh_number_cond_wpi := 100, d_w_cond := 0.0001,
                                num_layers_cond := 3\<rparr>)"
proof -
  let ?c = "default_config\<lparr>mesh_number_cond_wpi := 100, d_w_cond := 0.0001,
                                num_layers_cond := 3\<rparr>"
  have e: "porosity_evap ?c = 1 - pi * (2550 / 25400)"
    by (simp add: porosity_evap_def default_config_def)
  have c: "porosity_cond ?c = 1 - pi * (2500 / 25400)"
    by (simp add: porosity_cond_def default_config_def)
  have "0 < pi * (2550 / 25400)" "pi * (2550 / 25400) < 1"
       "0 < pi * (2500 / 25400)" "pi * (2500 / 25400) < 1"
    using pi_gt_zero pi_less_4 by simp_all
  then have "0 < porosity_evap ?c \<and> porosity_evap ?c < 1 \<and>
             0 < porosity_cond ?c \<and> porosity_cond ?c < 1"
    unfolding e c by linarith
  then show ?thesis
    by (simp add: valid_config_def) (simp add: default_config_def)
qed

section \<open>Dependence on the heat load\<close>

lemma dP_linear:
  assumes "capillary_performance_analysis c p = Inr q"
  shows "dP_l q = liquid_pressure_term q * Q_in c"
    and "dP_v q = vapor_pressure_term q * Q_in c"
proof -
  note f = cpa_fields[OF assms]
  have m: "(a * x * b) / D = (a * b) / D * x" for a x b D :: real by simp
  show "dP_l q = liquid_pressure_term q * Q_in c"
    unfolding f(6) f(4) f(5) f(13) m distrib_right ..
  have n: "(k * a * x * b) / D = (k * a * b) / D * x" for k a x b D :: real by simp
  show "dP_v q = vapor_pressure_term q * Q_in c"
    unfolding f(8) f(12) n ..
qed

lemma dpc_Q_in [simp]:
  "derived_parameter_calculation (c\<lparr>Q_in := x\<rparr>) = derived_parameter_calculation c"
  by (simp add: derived_parameter_calculation_def)

lemma trn_Q_in [simp]:
  "thermal_resistance_network_analysis (c\<lparr>Q_in := x\<rparr>) p =
     thermal_resistance_network_analysis c p"
  by (simp add: thermal_resistance_network_analysis_def)

lemma cpa_Q_in:
  assumes "capillary_performance_analysis c p = Inr q"
  shows "\<exists>q'. capillary_performance_analysis (c\<lparr>Q_in := x\<rparr>) p = Inr q'
           \<and> dP_cap q' = dP_cap q \<and> dP_g q' = dP_g q
           \<and> liquid_pressure_term q' = liquid_pressure_term q
           \<and> vapor_pressure_term q' = vapor_pressure_term q
           \<and> Q_max q' = Q_max q"
proof -
  note f = cpa_fields[OF assms]
  let ?c = "c\<lparr>Q_in := x\<rparr>"
  have "\<exists>q'. capillary_performance_analysis ?c p = Inr q'"
  proof (rule cpa_success)
    show "rc_eff p \<noteq> 0" by (rule f(15))
    show "rho_l ?c * A_wick_cond p * K_cond p * h_fg ?c \<noteq> 0" using f(16) by simp
    show "rho_l ?c * A_wick_evap p * K_evap p * h_fg ?c \<noteq> 0" using f(17) by simp
    show "2 * rho_v ?c * A_vapor p * (d_h_vapor p)\<^sup>2 * h_fg ?c \<noteq> 0" using f(18) by simp
    show "mu_l ?c * (L_eff p / 2) / (rho_l ?c * A_wick_cond p * K_cond p * h_fg ?c) +
          mu_l ?c * (L_eff p / 2) / (rho_l ?c * A_wick_evap p * K_evap p * h_fg ?c) +
          96 * mu_v ?c * L_eff p / (2 * rho_v ?c * A_vapor p * (d_h_vapor p)\<^sup>2 * h_fg ?c) \<noteq> 0"
      using f(19) unfolding f(12) f(13) f(7) by simp
  qed
  then obtain q' where q': "capillary_performance_analysis ?c p = Inr q'" by blast
  note f' = cpa_fields[OF q']
  have th: "theta q' = theta q" unfolding f'(2) f(2) by simp
  have ph: "phi q' = phi q" unfolding f'(1) f(1) by simp
  have 1: "dP_cap q' = dP_cap q" unfolding f'(3) f(3) th by simp
  have 2: "dP_g q' = dP_g q" unfolding f'(10) f(10) ph f'(9) f(9) by simp
  have 3: "liquid_pressure_term q' = liquid_pressure_term q" unfolding f'(13) f(13) by simp
  have 4: "vapor_pressure_term q' = vapor_pressure_term q"
    unfolding f'(12) f(12) f'(7) f(7) by simp
  have 5: "Q_max q' = Q_max q" unfolding f'(14) f(14) 1 2 3 4 ..
  show ?thesis using q' 1 2 3 4 5 by blast
qed

lemma model_Q_in:
  assumes "vapor_chamber_model c = Inr d"
  shows "\<exists>d'. vapor_chamber_model (c\<lparr>Q_in := x\<rparr>) = Inr d'
           \<and> parameters d' = parameters d \<and> thermal d' = thermal d
           \<and> dP_cap (capillary d') = dP_cap (capillary d)
           \<and> dP_g (capillary d') = dP_g (capillary d)
           \<and> liquid_pressure_term (capillary d') = liquid_pressure_term (capillary d)
           \<and> vapor_pressure_term (capillary d') = vapor_pressure_term (capillary d)
           \<and> Q_max (capillary d') = Q_max (capillary d)"
proof -
  note s = model_stages[OF assms]
  obtain q' where q': "capillary_performance_analysis (c\<lparr>Q_in := x\<rparr>) (parameters d) = Inr q'"
    and e: "dP_cap q' = dP_cap (capillary d)" "dP_g q' = dP_g (capillary d)"
      "liquid_pressure_term q' = liquid_pressure_term (capillary d)"
      "vapor_pressure_term q' = vapor_pressure_term (capillary d)"
      "Q_max q' = Q_max (capillary d)"
    using cpa_Q_in[OF s(2), of x] by blast
  have "vapor_chamber_model (c\<lparr>Q_in := x\<rparr>) =
          Inr \<lparr> parameters = parameters d, capillary = q', thermal = thermal d,
                printed = results_summary (c\<lparr>Q_in := x\<rparr>) (parameters d) q' (thermal d) \<rparr>"
    by (rule model_from_stages) (simp_all add: s q')
  then show ?thesis using e by simp
qed

lemma coefficients_positive:
  assumes cap: "capillary_performance_analysis c p = Inr q"
    and pos: "0 < mu_l c" "0 < mu_v c" "0 < L_eff p"
    and den: "0 < rho_l c * A_wick_cond p * K_cond p * h_fg c"
             "0 < rho_l c * A_wick_evap p * K_evap p * h_fg c"
             "0 < 2 * rho_v c * A_vapor p * (d_h_vapor p)\<^sup>2 * h_fg c"
  shows "0 < liquid_pressure_term q" and "0 < vapor_pressure_term q"
proof -
  note f = cpa_fields[OF cap]
  have n: "0 < mu_l c * (L_eff p / 2)" using pos by simp
  have a: "0 < (mu_l c * (L_eff p / 2)) / (rho_l c * A_wick_cond p * K_cond p * h_fg c)"
    using n den(1) by (rule divide_pos_pos)
  have b: "0 < (mu_l c * (L_eff p / 2)) / (rho_l c * A_wick_evap p * K_evap p * h_fg c)"
    using n den(2) by (rule divide_pos_pos)
  show "0 < liquid_pressure_term q" unfolding f(13) using a b by linarith
  have "0 < C_vapor q * mu_v c * L_eff p" unfolding f(7) using pos by simp
  then show "0 < vapor_pressure_term q" unfolding f(12) using den(3) by (rule divide_pos_pos)
qed

section \<open>The printed verdict\<close>

lemma results_summary_met:
  assumes "dP_cap q \<ge> dP_total q"
  shows "results_summary c p q r ! 21 =
           [Lit ''YES! CAPILLARY LIMIT: MET for the specified heat load ('',
            Fixed (Q_in c) 1, Lit '' W).'']"
    and "results_summary c p q r ! 22 =
           [Lit ''Maximum Heat Transport (Q_max): '', Fixed (Q_max q) 1, Lit '' W'']"
    and "length (results_summary c p q r) = 26"
  using assms by (simp_all add: results_summary_def nth_append Let_def)

lemma results_summary_failed:
  assumes "\<not> dP_cap q \<ge> dP_total q"
  shows "results_summary c p q r ! 21 =
           [Lit ''NO! CAPILLARY LIMIT: FAILED. Wick cannot sustain the required flow.'']"
    and "results_summary c p q r ! 22 =
           [Lit ''   The design is limited to Q_max = '', Fixed (Q_max q) 1,
            Lit '' W under these conditions.'']"
    and "results_summary c p q r ! 23 =
           [Lit ''Maximum Heat Transport (Q_max): '', Fixed (Q_max q) 1, Lit '' W'']"
    and "length (results_summary c p q r) = 27"
  using assms by (simp_all add: results_summary_def nth_append Let_def)

section \<open>Numeric bounds\<close>

text \<open>
  The permeability depends on \<open>pi\<close> through the porosity. The bounds \<open>2 \<le> pi < 4\<close> are
  enough to decide the sign of every divisor and the verdict in the runs below.
\<close>

lemma K_lower_bound:
  fixes e elo uhi w :: real
  assumes "0 < elo" "elo \<le> e" "0 < 1 - e" "1 - e \<le> uhi"
  shows "w\<^sup>2 * elo ^ 3 / (122 * uhi\<^sup>2) \<le> w\<^sup>2 * e ^ 3 / (122 * (1 - e)\<^sup>2)"
proof (rule frac_le)
  have "0 < e" using assms(1,2) by linarith
  then show "0 \<le> w\<^sup>2 * e ^ 3" by simp
  have "elo ^ 3 \<le> e ^ 3" using assms(1,2) by (intro power_mono) simp_all
  then show "w\<^sup>2 * elo ^ 3 \<le> w\<^sup>2 * e ^ 3" by (intro mult_left_mono) simp_all
  show "0 < 122 * (1 - e)\<^sup>2" using assms(3) by simp
  have "(1 - e)\<^sup>2 \<le> uhi\<^sup>2" using assms(3,4) by (intro power_mono) simp_all
  then show "122 * (1 - e)\<^sup>2 \<le> 122 * uhi\<^sup>2" by simp
qed

lemma drop_upper_bound:
  fixes N r A K Klo h :: real
  assumes "0 \<le> N" "0 < r" "0 < A" "0 < h" "0 < Klo" "Klo \<le> K"
  shows "N / (r * A * K * h) \<le> N / (r * A * Klo * h)"
proof (rule divide_left_mono)
  have ra: "0 < r * A" using assms(2,3) by (rule mult_pos_pos)
  have "r * A * Klo \<le> r * A * K" using ra assms(6) by (intro mult_left_mono) simp_all
  then show "r * A * Klo * h \<le> r * A * K * h" using assms(4) by (intro mult_right_mono) simp_all
  show "0 \<le> N" by (rule assms(1))
  have "0 < K" using assms(5,6) by linarith
  have "0 < r * A * K * h"
    by (rule mult_pos_pos[OF mult_pos_pos[OF ra \<open>0 < K\<close>] assms(4)])
  moreover have "0 < r * A * Klo * h"
    by (rule mult_pos_pos[OF mult_pos_pos[OF ra assms(5)] assms(4)])
  ultimately show "0 < r * A * K * h * (r * A * Klo * h)" by (rule mult_pos_pos)
qed

lemma K_upper_bound_neg:
  fixes e a u w :: real
  assumes "e \<le> - a" "0 < a" "0 < 1 - e" "1 - e \<le> u"
  shows "w\<^sup>2 * e ^ 3 / (122 * (1 - e)\<^sup>2) \<le> - (w\<^sup>2 * a ^ 3 / (122 * u\<^sup>2))"
proof -
  have "a ^ 3 \<le> (- e) ^ 3" using assms(1,2) by (intro power_mono) simp_all
  then have x: "w\<^sup>2 * a ^ 3 \<le> w\<^sup>2 * (- e) ^ 3" by (intro mult_left_mono) simp_all
  have "0 \<le> - e" using assms(1,2) by linarith
  then have "0 \<le> (- e) ^ 3" by (rule zero_le_power)
  then have nn: "0 \<le> w\<^sup>2 * (- e) ^ 3" by (intro mult_nonneg_nonneg) simp_all
  have "(1 - e)\<^sup>2 \<le> u\<^sup>2" using assms(3,4) by (intro power_mono) simp_all
  then have y: "122 * (1 - e)\<^sup>2 \<le> 122 * u\<^sup>2" by simp
  have p: "0 < 122 * (1 - e)\<^sup>2" using assms(3) by simp
  have "w\<^sup>2 * a ^ 3 / (122 * u\<^sup>2) \<le> w\<^sup>2 * (- e) ^ 3 / (122 * (1 - e)\<^sup>2)"
    using nn x p y by (rule frac_le)
  moreover have "w\<^sup>2 * (- e) ^ 3 / (122 * (1 - e)\<^sup>2) = - (w\<^sup>2 * e ^ 3 / (122 * (1 - e)\<^sup>2))"
    by simp
  ultimately show ?thesis by linarith
qed

lemma drop_lower_bound_neg:
  fixes N D0 den :: real
  assumes "0 \<le> N" "0 < D0" "den \<le> - D0"
  shows "- (N / D0) \<le> N / den"
proof -
  have "N / (- den) \<le> N / D0"
  proof (rule divide_left_mono)
    show "D0 \<le> - den" using assms(3) by linarith
    show "0 \<le> N" by (rule assms(1))
    have "0 < - den" using assms(2,3) by linarith
    then show "0 < - den * D0" using assms(2) by (rule mult_pos_pos)
  qed
  then show ?thesis by simp
qed

lemma default_capillary_limit_met:
  assumes "vapor_chamber_model default_config = Inr d"
  shows "dP_total (capillary d) \<le> dP_cap (capillary d)"
proof -
  let ?p = "parameters d" and ?q = "capillary d"
  note v = default_config_valid
  note s = model_stages[OF assms]
  note f = dpc_fields[OF s(1)] and h = cpa_fields[OF s(2)]
  note pos = valid_dpc_pos[OF v s(1)]
  note por = dpc_porosity[OF s(1)]
  note c = default_config_fields
  have pi4: "pi * (2550 / 25400) < 41 / 100" "pi * (3000 / 25400) < 48 / 100"
    using pi_less_4 by simp_all
  have ee: "59 / 100 \<le> epsilon_evap ?p" "1 - epsilon_evap ?p \<le> 41 / 100"
    unfolding por default_porosity using pi4 by linarith+
  have ec: "52 / 100 \<le> epsilon_cond ?p" "1 - epsilon_cond ?p \<le> 48 / 100"
    unfolding por default_porosity using pi4 by linarith+
  have Ke: "(0.000051)\<^sup>2 * (59 / 100) ^ 3 / (122 * (41 / 100)\<^sup>2) \<le> K_evap ?p"
    unfolding f(9) c using ee pos(2) by (intro K_lower_bound) simp_all
  have Kc: "(0.00015)\<^sup>2 * (52 / 100) ^ 3 / (122 * (48 / 100)\<^sup>2) \<le> K_cond ?p"
    unfolding f(10) c using ec pos(4) by (intro K_lower_bound) simp_all
  have L: "L_eff ?p = 0.0225" unfolding f(11) c by simp
  have Ae: "A_wick_evap ?p = 2 * 0.000051 * 5 * 0.070" unfolding f(14) f(4) c by simp
  have Ac: "A_wick_cond ?p = 2 * 0.00015 * 5 * 0.070" unfolding f(15) f(5) c by simp
  have Av: "A_vapor ?p = 0.00192 * 0.070" unfolding f(16) c by simp
  have dh: "d_h_vapor ?p = (2 * 0.00192 * 0.070) / (0.00192 + 0.070)" unfolding f(17) c by simp
  have le: "dP_l_evap ?q \<le> (0.000404 * 150 * (0.0225 / 2)) /
      (977.8 * (2 * 0.000051 * 5 * 0.070)
         * ((0.000051)\<^sup>2 * (59 / 100) ^ 3 / (122 * (41 / 100)\<^sup>2)) * 2330000)"
    unfolding h(5) c L Ae using Ke by (intro drop_upper_bound) simp_all
  have lc: "dP_l_cond ?q \<le> (0.000404 * 150 * (0.0225 / 2)) /
      (977.8 * (2 * 0.00015 * 5 * 0.070)
         * ((0.00015)\<^sup>2 * (52 / 100) ^ 3 / (122 * (48 / 100)\<^sup>2)) * 2330000)"
    unfolding h(4) c L Ac using Kc by (intro drop_upper_bound) simp_all
  have le': "dP_l_evap ?q \<le> 400"
    using le by (rule order_trans) (simp add: power2_eq_square power3_eq_cube)
  have lc': "dP_l_cond ?q \<le> 30"
    using lc by (rule order_trans) (simp add: power2_eq_square power3_eq_cube)
  have dv: "dP_v ?q \<le> 3" unfolding h(8) h(7) c L Av dh by (simp add: power2_eq_square)
  have dg: "dP_g ?q = 0" unfolding h(10) h(1) c by (simp add: radians_def)
  have cap: "2000 \<le> dP_cap ?q" unfolding h(3) h(2) c f(8) f(2) f(1) by (simp add: radians_def)
  show ?thesis unfolding h(11) h(6) using le' lc' dv dg cap by linarith
qed

lemma overload_capillary_limit_failed:
  assumes "vapor_chamber_model (default_config\<lparr>Q_in := 1000000\<rparr>) = Inr d"
  shows "\<not> dP_cap (capillary d) \<ge> dP_total (capillary d)"
proof -
  let ?c = "default_config\<lparr>Q_in := 1000000\<rparr>"
  let ?p = "parameters d" and ?q = "capillary d"
  have v: "valid_config ?c" using default_config_valid by simp
  note s = model_stages[OF assms]
  note f = dpc_fields[OF s(1)] and h = cpa_fields[OF s(2)]
  note co = valid_cpa_pos[OF v s(1) s(2)]
  have c: "Q_in ?c = 1000000" "phi_deg ?c = 0" "theta_deg ?c = 0"
    "vc_length ?c = 0.070" "vc_width ?c = 0.070" "t_vapor ?c = 0.00192"
    "evap_length ?c = 0.020" "mesh_number_evap_wpi ?c = 200" "rho_l ?c = 977.8"
    "rho_v ?c = 0.198" "mu_v ?c = 0.0000109" "sigma ?c = 0.0644" "h_fg ?c = 2330000"
    by (simp_all add: default_config_def)
  have L: "L_eff ?p = 0.0225" unfolding f(11) c by simp
  have Av: "A_vapor ?p = 0.00192 * 0.070" unfolding f(16) c by simp
  have dh: "d_h_vapor ?p = (2 * 0.00192 * 0.070) / (0.00192 + 0.070)" unfolding f(17) c by simp
  have dl: "0 < dP_l ?q" unfolding dP_linear(1)[OF s(2)] c using co(1) by simp
  have dv: "10000 \<le> dP_v ?q" unfolding h(8) h(7) c L Av dh by (simp add: power2_eq_square)
  have dg: "dP_g ?q = 0" unfolding h(10) h(1) c by (simp add: radians_def)
  have cap: "dP_cap ?q \<le> 3000" unfolding h(3) h(2) c f(8) f(2) f(1) by (simp add: radians_def)
  show ?thesis unfolding h(11) using dl dv dg cap by linarith
qed

lemma thick_wire_runs:
  "\<exists>d. vapor_chamber_model (default_config\<lparr>d_w_evap := 0.00127\<rparr>) = Inr d"
proof -
  let ?c = "default_config\<lparr>d_w_evap := 0.00127\<rparr>"
  have c: "vc_length ?c = 0.070" "vc_width ?c = 0.070" "t_vapor ?c = 0.00192"
    "evap_length ?c = 0.020" "evap_width ?c = 0.020" "k_shell ?c = 380" "k_l ?c = 0.668"
    "mesh_number_evap_wpi ?c = 200" "d_w_evap ?c = 0.00127" "num_layers_evap ?c = 5"
    "d_w_cond ?c = 0.00015" "num_layers_cond ?c = 5" "rho_l ?c = 977.8" "rho_v ?c = 0.198"
    "mu_l ?c = 0.000404" "mu_v ?c = 0.0000109" "h_fg ?c = 2330000"
    by (simp_all add: default_config_def)
  have pe: "porosity_evap ?c = 1 - pi * (5 / 2)"
    and pc: "porosity_cond ?c = 1 - pi * (3000 / 25400)"
    by (simp_all add: porosity_evap_def porosity_cond_def default_config_def)
  have b: "5 \<le> pi * (5 / 2)" "pi * (5 / 2) < 10"
    "0 < pi * (3000 / 25400)" "pi * (3000 / 25400) < 1"
    using pi_ge_two pi_less_4 by simp_all
  have "\<exists>p. derived_parameter_calculation ?c = Inr p"
  proof (rule dpc_success)
    show "mesh_number_evap_wpi ?c \<noteq> 0" by (simp add: default_config_def)
    show "1 - (pi * (mesh_number_evap_wpi ?c / 0.0254) * d_w_evap ?c) / 4 \<noteq> 1"
      using b(1) pe unfolding porosity_evap_def by linarith
    show "1 - (pi * (mesh_number_cond_wpi ?c / 0.0254) * d_w_cond ?c) / 4 \<noteq> 1"
      using b(3) pc unfolding porosity_cond_def by linarith
    show "t_vapor ?c + vc_width ?c \<noteq> 0" by (simp add: default_config_def)
  qed
  then obtain p where p: "derived_parameter_calculation ?c = Inr p" by blast
  note f = dpc_fields[OF p] and por = dpc_porosity[OF p]
  have ee: "epsilon_evap p \<le> - 4" "0 < 1 - epsilon_evap p" "1 - epsilon_evap p \<le> 10"
    "5 \<le> 1 - epsilon_evap p"
    unfolding por pe using b by linarith+
  have ec: "0 < epsilon_cond p" "epsilon_cond p < 1" unfolding por pc using b by linarith+
  have r: "rc_eff p \<noteq> 0" unfolding f(8) using f(18) by simp
  have L: "L_eff p = 0.0225" unfolding f(11) c by simp
  have Ae: "A_wick_evap p = 2 * 0.00127 * 5 * 0.070" unfolding f(14) f(4) c by simp
  have Ac: "0 < A_wick_cond p" unfolding f(15) f(5) c by simp
  have Av: "A_vapor p = 0.00192 * 0.070" unfolding f(16) c by simp
  have dh: "d_h_vapor p = (2 * 0.00192 * 0.070) / (0.00192 + 0.070)" unfolding f(17) c by simp
  have Kc: "0 < K_cond p" unfolding f(10) c using ec by (intro K_pos) simp_all
  have Ke: "K_evap p \<le> - ((0.00127)\<^sup>2 * 4 ^ 3 / (122 * 10\<^sup>2))"
    unfolding f(9) c using ee by (intro K_upper_bound_neg) simp_all
  have dc: "0 < rho_l ?c * A_wick_cond p * K_cond p * h_fg ?c"
    unfolding c using Ac Kc by simp
  have de: "rho_l ?c * A_wick_evap p * K_evap p * h_fg ?c \<le> - (1 / 100)"
  proof -
    have "rho_l ?c * A_wick_evap p * K_evap p * h_fg ?c
            = (977.8 * (2 * 0.00127 * 5 * 0.070) * 2330000) * K_evap p"
      unfolding c Ae by simp
    also have "\<dots> \<le> (977.8 * (2 * 0.00127 * 5 * 0.070) * 2330000)
                        * (- ((0.00127)\<^sup>2 * 4 ^ 3 / (122 * 10\<^sup>2)))"
      using Ke by (intro mult_left_mono) simp_all
    also have "\<dots> \<le> - (1 / 100)" by (simp add: power2_eq_square)
    finally show ?thesis .
  qed
  have dv: "0 < 2 * rho_v ?c * A_vapor p * (d_h_vapor p)\<^sup>2 * h_fg ?c"
    unfolding c Av dh by simp
  have N: "0 < mu_l ?c * (L_eff p / 2)" unfolding c L by simp
  have lc: "0 < (mu_l ?c * (L_eff p / 2)) / (rho_l ?c * A_wick_cond p * K_cond p * h_fg ?c)"
    using N dc by (rule divide_pos_pos)
  have "- ((mu_l ?c * (L_eff p / 2)) / (1 / 100))
          \<le> (mu_l ?c * (L_eff p / 2)) / (rho_l ?c * A_wick_evap p * K_evap p * h_fg ?c)"
    using N de by (intro drop_lower_bound_neg) simp_all
  then have le: "- (1 / 1000)
          \<le> (mu_l ?c * (L_eff p / 2)) / (rho_l ?c * A_wick_evap p * K_evap p * h_fg ?c)"
    unfolding c(15) L by simp
  have lv: "1 / 100 \<le> (96 * mu_v ?c * L_eff p)
                      / (2 * rho_v ?c * A_vapor p * (d_h_vapor p)\<^sup>2 * h_fg ?c)"
    unfolding c L Av dh by (simp add: power2_eq_square)
  have "\<exists>q. capillary_performance_analysis ?c p = Inr q"
  proof (rule cpa_success)
    show "rc_eff p \<noteq> 0" by (rule r)
    show "rho_l ?c * A_wick_cond p * K_cond p * h_fg ?c \<noteq> 0" using dc by linarith
    show "rho_l ?c * A_wick_evap p * K_evap p * h_fg ?c \<noteq> 0" using de by linarith
    show "2 * rho_v ?c * A_vapor p * (d_h_vapor p)\<^sup>2 * h_fg ?c \<noteq> 0" using dv by linarith
    show "((mu_l ?c * (L_eff p / 2)) / (rho_l ?c * A_wick_cond p * K_cond p * h_fg ?c)) +
         ((mu_l ?c * (L_eff p / 2)) / (rho_l ?c * A_wick_evap p * K_evap p * h_fg ?c)) +
         (96 * mu_v ?c * L_eff p) / (2 * rho_v ?c * A_vapor p * (d_h_vapor p)\<^sup>2 * h_fg ?c) \<noteq> 0"
      using lc le lv by linarith
  qed
  then obtain q where q: "capillary_performance_analysis ?c p = Inr q" by blast
  have Aev: "0 < A_evap p" unfolding f(12) c by simp
  have Aco: "0 < A_cond p" unfolding f(13) f(12) c by simp
  have ks: "0 < k_shell ?c" "0 < k_l ?c" unfolding c by simp_all
  note tc = wick_conductivity_terms[OF ks ec]
  define D where "D = k_shell ?c - k_l ?c"
  define S where "S = k_shell ?c + k_l ?c"
  have D: "0 < D" "S < 5 * D" "0 < S" unfolding D_def S_def c by simp_all
  have te1: "S - (1 - epsilon_evap p) * D < 0"
  proof -
    have "5 * D \<le> (1 - epsilon_evap p) * D"
      using ee(4) D(1) by (intro mult_right_mono) simp_all
    then show ?thesis using D(2) by linarith
  qed
  have te2: "0 < S + (1 - epsilon_evap p) * D"
  proof -
    have "0 < (1 - epsilon_evap p) * D" using ee(2) D(1) by (rule mult_pos_pos)
    then show ?thesis using D(3) by linarith
  qed
  note te1 = te1[unfolded D_def S_def] and te2 = te2[unfolded D_def S_def]
  have re: "(k_shell ?c + k_l ?c + (1 - epsilon_evap p) * (k_shell ?c - k_l ?c)) /
            (k_shell ?c + k_l ?c - (1 - epsilon_evap p) * (k_shell ?c - k_l ?c)) < 0"
    using te2 te1 by (rule divide_pos_neg)
  have rc: "0 < (k_shell ?c + k_l ?c + (1 - epsilon_cond p) * (k_shell ?c - k_l ?c)) /
            (k_shell ?c + k_l ?c - (1 - epsilon_cond p) * (k_shell ?c - k_l ?c))"
    using tc(2,1) by (rule divide_pos_pos)
  have "\<exists>r. thermal_resistance_network_analysis ?c p = Inr r"
  proof (rule trn_success)
    show "k_shell ?c + k_l ?c - (1 - epsilon_evap p) * (k_shell ?c - k_l ?c) \<noteq> 0"
      using te1 by linarith
    show "k_shell ?c + k_l ?c - (1 - epsilon_cond p) * (k_shell ?c - k_l ?c) \<noteq> 0"
      using tc(1) by linarith
    show "k_shell ?c * A_evap p \<noteq> 0" using ks(1) Aev by simp
    show "k_shell ?c * A_cond p \<noteq> 0" using ks(1) Aco by simp
    show "k_l ?c * ((k_shell ?c + k_l ?c + (1 - epsilon_evap p) * (k_shell ?c - k_l ?c)) /
            (k_shell ?c + k_l ?c - (1 - epsilon_evap p) * (k_shell ?c - k_l ?c))) * A_evap p \<noteq> 0"
      using mult_neg_pos[OF mult_pos_neg[OF ks(2) re] Aev] by linarith
    show "k_l ?c * ((k_shell ?c + k_l ?c + (1 - epsilon_cond p) * (k_shell ?c - k_l ?c)) /
            (k_shell ?c + k_l ?c - (1 - epsilon_cond p) * (k_shell ?c - k_l ?c))) * A_cond p \<noteq> 0"
      using mult_pos_pos[OF mult_pos_pos[OF ks(2) rc] Aco] by linarith
  qed
  then obtain r where r: "thermal_resistance_network_analysis ?c p = Inr r" by blast
  show ?thesis using model_from_stages[OF p q r] by blast
qed

lemma default_zero_evap_layers:
  "vapor_chamber_model (default_config\<lparr>num_layers_evap := 0\<rparr>) = Inl (ZeroDivisionError 101)"
proof -
  let ?c = "default_config\<lparr>num_layers_evap := 0\<rparr>"
  have pe: "porosity_evap ?c = 1 - pi * (2550 / 25400)"
    and pc: "porosity_cond ?c = 1 - pi * (3000 / 25400)"
    by (simp_all add: porosity_evap_def porosity_cond_def default_config_def)
  have b: "0 < pi * (2550 / 25400)" "0 < pi * (3000 / 25400)" "pi * (3000 / 25400) < 1"
    using pi_gt_zero pi_less_4 by simp_all
  have "\<exists>p. derived_parameter_calculation ?c = Inr p"
  proof (rule dpc_success)
    show "mesh_number_evap_wpi ?c \<noteq> 0" by (simp add: default_config_def)
    show "1 - (pi * (mesh_number_evap_wpi ?c / 0.0254) * d_w_evap ?c) / 4 \<noteq> 1"
      using b(1) pe unfolding porosity_evap_def by linarith
    show "1 - (pi * (mesh_number_cond_wpi ?c / 0.0254) * d_w_cond ?c) / 4 \<noteq> 1"
      using b(2) pc unfolding porosity_cond_def by linarith
    show "t_vapor ?c + vc_width ?c \<noteq> 0" by (simp add: default_config_def)
  qed
  then obtain p where p: "derived_parameter_calculation ?c = Inr p" by blast
  note f = dpc_fields[OF p] and por = dpc_porosity[OF p]
  have c: "num_layers_evap ?c = 0" "num_layers_cond ?c = 5" "d_w_cond ?c = 0.00015"
    "vc_width ?c = 0.070" "rho_l ?c = 977.8" "h_fg ?c = 2330000"
    by (simp_all add: default_config_def)
  have r: "rc_eff p \<noteq> 0" unfolding f(8) using f(18) by simp
  have ec: "0 < epsilon_cond p" "epsilon_cond p \<noteq> 1" unfolding por pc using b by linarith+
  have K: "0 < K_cond p" unfolding f(10) c using ec by (intro K_pos) simp_all
  have Ac: "0 < A_wick_cond p" unfolding f(15) f(5) c by simp
  have "0 < rho_l ?c * A_wick_cond p * K_cond p * h_fg ?c"
    unfolding c using Ac K by simp
  then have den: "rho_l ?c * A_wick_cond p * K_cond p * h_fg ?c \<noteq> 0" by linarith
  have Ae: "A_wick_evap p = 0" unfolding f(14) f(4) c by simp
  show ?thesis using model_Inl_cpa[OF p cpa_raises_101[OF r den Ae]] .
qed

lemma default_zero_cond_layers:
  "vapor_chamber_model (default_config\<lparr>num_layers_cond := 0\<rparr>) = Inl (ZeroDivisionError 100)"
proof -
  let ?c = "default_config\<lparr>num_layers_cond := 0\<rparr>"
  have pe: "porosity_evap ?c = 1 - pi * (2550 / 25400)"
    and pc: "porosity_cond ?c = 1 - pi * (3000 / 25400)"
    by (simp_all add: porosity_evap_def porosity_cond_def default_config_def)
  have b: "0 < pi * (2550 / 25400)" "0 < pi * (3000 / 25400)"
    using pi_gt_zero by simp_all
  have "\<exists>p. derived_parameter_calculation ?c = Inr p"
  proof (rule dpc_success)
    show "mesh_number_evap_wpi ?c \<noteq> 0" by (simp add: default_config_def)
    show "1 - (pi * (mesh_number_evap_wpi ?c / 0.0254) * d_w_evap ?c) / 4 \<noteq> 1"
      using b(1) pe unfolding porosity_evap_def by linarith
    show "1 - (pi * (mesh_number_cond_wpi ?c / 0.0254) * d_w_cond ?c) / 4 \<noteq> 1"
      using b(2) pc unfolding porosity_cond_def by linarith
    show "t_vapor ?c + vc_width ?c \<noteq> 0" by (simp add: default_config_def)
  qed
  then obtain p where p: "derived_parameter_calculation ?c = Inr p" by blast
  note f = dpc_fields[OF p]
  have c: "num_layers_cond ?c = 0" by simp
  have r: "rc_eff p \<noteq> 0" unfolding f(8) using f(18) by simp
  have Ac: "A_wick_cond p = 0" unfolding f(15) f(5) c by simp
  show ?thesis using model_Inl_cpa[OF p cpa_raises_100[OF r Ac]] .
qed

lemma porosity_zero_raises:
  assumes "porosity_evap c = 0 \<or> porosity_cond c = 0"
  shows "\<exists>l. vapor_chamber_model c = Inl (ZeroDivisionError l)
           \<and> l \<in> {70, 71, 72, 91, 100, 101}"
proof (cases "derived_parameter_calculation c")
  case (Inl e)
  then show ?thesis using dpc_error_lines[OF Inl] model_Inl_dpc[OF Inl] by auto
next
  case (Inr p)
  note f = dpc_fields[OF Inr] and por = dpc_porosity[OF Inr]
  have "epsilon_evap p = 0 \<or> epsilon_cond p = 0" unfolding por by (rule assms)
  then have "K_evap p = 0 \<or> K_cond p = 0" unfolding f(9) f(10) by auto
  then have z: "rho_l c * A_wick_cond p * K_cond p * h_fg c = 0
         \<or> rho_l c * A_wick_evap p * K_evap p * h_fg c = 0" by auto
  have r: "rc_eff p \<noteq> 0" unfolding f(8) using f(18) by simp
  show ?thesis using cpa_zero_divisor[OF z r] model_Inl_cpa[OF Inr] by auto
qed

lemma dP_g_formula:
  assumes "vapor_chamber_model c = Inr d"
  shows "dP_g (capillary d) =
           rho_l c * 9.81 * L_eff (parameters d) * sin (radians (phi_deg c))"
  using cpa_fields(1,9,10)[OF model_stages(2)[OF assms]] by (simp only:)

lemma radians_minus_90: "radians (- 90) = - (pi / 2)"
  by (simp add: radians_def)

lemma porosity_evap_no_wire: "porosity_evap (default_config\<lparr>d_w_evap := 0\<rparr>) = 1"
  by (simp add: porosity_evap_def)

lemma porosity_cond_tight_wire:
  "porosity_cond (default_config\<lparr>d_w_cond := 0.00127 / pi\<rparr>) = 0"
  by (simp add: porosity_cond_def default_config_def)

section \<open>The claims\<close>

subsection \<open>C1: linearity in the heat load and the threshold\<close>

text \<open>
  Claim C1. For a run that completes on a configuration with positive viscosities and
  flow length and positive pressure-drop denominators: \<open>dP_l\<close> and \<open>dP_v\<close> are the
  per-watt terms times \<open>Q_in\<close>; changing \<open>Q_in\<close> alone leaves \<open>dP_cap\<close>, \<open>dP_g\<close> and the
  per-watt terms unchanged and the run still completes; a larger \<open>Q_in\<close> gives strictly
  larger \<open>dP_l\<close> and \<open>dP_v\<close>; the capillary limit is met exactly when \<open>Q_in \<le> Q_max\<close>,
  with \<open>Q_max = (dP_cap - dP_g) / (liquid_pressure_term + vapor_pressure_term)\<close>; and at
  \<open>Q_in = Q_max\<close> the total drop equals \<open>dP_cap\<close>.
\<close>

theorem pressure_drops_linear_and_Q_max_threshold:
  assumes run: "vapor_chamber_model c = Inr d"
    and pos: "0 < mu_l c" "0 < mu_v c" "0 < L_eff (parameters d)"
    and den: "0 < rho_l c * A_wick_cond (parameters d) * K_cond (parameters d) * h_fg c"
             "0 < rho_l c * A_wick_evap (parameters d) * K_evap (parameters d) * h_fg c"
             "0 < 2 * rho_v c * A_vapor (parameters d) * (d_h_vapor (parameters d))\<^sup>2 * h_fg c"
  shows "dP_l (capillary d) = liquid_pressure_term (capillary d) * Q_in c
       \<and> dP_v (capillary d) = vapor_pressure_term (capillary d) * Q_in c
       \<and> Q_max (capillary d) =
           (dP_cap (capillary d) - dP_g (capillary d))
           / (liquid_pressure_term (capillary d) + vapor_pressure_term (capillary d))
       \<and> (\<forall>x. \<exists>d'. vapor_chamber_model (c\<lparr>Q_in := x\<rparr>) = Inr d'
              \<and> dP_cap (capillary d') = dP_cap (capillary d)
              \<and> dP_g (capillary d') = dP_g (capillary d)
              \<and> dP_l (capillary d') = liquid_pressure_term (capillary d) * x
              \<and> dP_v (capillary d') = vapor_pressure_term (capillary d) * x
              \<and> (Q_in c < x \<longrightarrow> dP_l (capillary d) < dP_l (capillary d')
                                \<and> dP_v (capillary d) < dP_v (capillary d'))
              \<and> (dP_cap (capillary d') \<ge> dP_total (capillary d')
                   \<longleftrightarrow> x \<le> Q_max (capillary d))
              \<and> (x = Q_max (capillary d)
                   \<longrightarrow> dP_total (capillary d') = dP_cap (capillary d')))"
proof -
  note s = model_stages[OF run]
  note f = cpa_fields[OF s(2)]
  note lin = dP_linear[OF s(2)]
  note co = coefficients_positive[OF s(2) pos den]
  let ?l = "liquid_pressure_term (capillary d)"
  let ?v = "vapor_pressure_term (capillary d)"
  let ?Q = "Q_max (capillary d)"
  have sum: "0 < ?l + ?v" using co by linarith
  have "\<exists>d'. vapor_chamber_model (c\<lparr>Q_in := x\<rparr>) = Inr d'
              \<and> dP_cap (capillary d') = dP_cap (capillary d)
              \<and> dP_g (capillary d') = dP_g (capillary d)
              \<and> dP_l (capillary d') = ?l * x
              \<and> dP_v (capillary d') = ?v * x
              \<and> (Q_in c < x \<longrightarrow> dP_l (capillary d) < dP_l (capillary d')
                                \<and> dP_v (capillary d) < dP_v (capillary d'))
              \<and> (dP_cap (capillary d') \<ge> dP_total (capillary d') \<longleftrightarrow> x \<le> ?Q)
              \<and> (x = ?Q \<longrightarrow> dP_total (capillary d') = dP_cap (capillary d'))" for x
  proof -
    obtain d' where d': "vapor_chamber_model (c\<lparr>Q_in := x\<rparr>) = Inr d'"
      and e: "dP_cap (capillary d') = dP_cap (capillary d)"
             "dP_g (capillary d') = dP_g (capillary d)"
             "liquid_pressure_term (capillary d') = ?l"
             "vapor_pressure_term (capillary d') = ?v"
      using model_Q_in[OF run, of x] by blast
    note s' = model_stages[OF d']
    have l': "dP_l (capillary d') = ?l * x" using dP_linear(1)[OF s'(2)] e(3) by simp
    have v': "dP_v (capillary d') = ?v * x" using dP_linear(2)[OF s'(2)] e(4) by simp
    have t': "dP_total (capillary d') = (?l + ?v) * x + dP_g (capillary d)"
      unfolding cpa_fields(11)[OF s'(2)] l' v' e(2) by (simp add: distrib_right)
    have mono: "Q_in c < x \<longrightarrow> dP_l (capillary d) < dP_l (capillary d')
                                \<and> dP_v (capillary d) < dP_v (capillary d')"
      unfolding l' v' lin using co by simp
    have "dP_cap (capillary d') \<ge> dP_total (capillary d') \<longleftrightarrow>
            (?l + ?v) * x \<le> dP_cap (capillary d) - dP_g (capillary d)"
      unfolding t' e(1) by linarith
    also have "\<dots> \<longleftrightarrow> x \<le> (dP_cap (capillary d) - dP_g (capillary d)) / (?l + ?v)"
      using sum by (simp add: pos_le_divide_eq mult.commute)
    finally have verdict: "dP_cap (capillary d') \<ge> dP_total (capillary d') \<longleftrightarrow> x \<le> ?Q"
      unfolding f(14) .
    have "(?l + ?v) * ?Q = dP_cap (capillary d) - dP_g (capillary d)"
      unfolding f(14) using sum by simp
    then have at: "x = ?Q \<longrightarrow> dP_total (capillary d') = dP_cap (capillary d')"
      unfolding t' e(1) by auto
    show ?thesis using d' e(1,2) l' v' mono verdict at by blast
  qed
  then show ?thesis using lin f(14) by blast
qed

theorem pressure_drops_linear_and_Q_max_threshold_witness:
  "\<exists>d. vapor_chamber_model default_config = Inr d
     \<and> dP_l (capillary d) = liquid_pressure_term (capillary d) * 150
     \<and> dP_v (capillary d) = vapor_pressure_term (capillary d) * 150
     \<and> (\<exists>d'. vapor_chamber_model (default_config\<lparr>Q_in := 151\<rparr>) = Inr d'
            \<and> dP_cap (capillary d') = dP_cap (capillary d)
            \<and> dP_g (capillary d') = dP_g (capillary d)
            \<and> dP_l (capillary d) < dP_l (capillary d')
            \<and> dP_v (capillary d) < dP_v (capillary d'))
     \<and> (\<exists>d'. vapor_chamber_model (default_config\<lparr>Q_in := Q_max (capillary d)\<rparr>) = Inr d'
            \<and> dP_total (capillary d') = dP_cap (capillary d'))"
proof -
  note v = default_config_valid
  obtain d where d: "vapor_chamber_model default_config = Inr d"
    using valid_config_runs[OF v] by blast
  note s = model_stages[OF d]
  have m: "0 < mu_l default_config" "0 < mu_v default_config"
    by (simp_all add: default_config_def)
  note T = pressure_drops_linear_and_Q_max_threshold[OF d m valid_dpc_pos(9)[OF v s(1)]
      valid_cpa_terms(1,2,3)[OF v s(1)]]
  have q: "Q_in default_config = 150" by (simp add: default_config_def)
  from T have 1: "dP_l (capillary d) = liquid_pressure_term (capillary d) * 150"
    and 2: "dP_v (capillary d) = vapor_pressure_term (capillary d) * 150"
    unfolding q by blast+
  from T obtain d' where "vapor_chamber_model (default_config\<lparr>Q_in := 151\<rparr>) = Inr d'
            \<and> dP_cap (capillary d') = dP_cap (capillary d)
            \<and> dP_g (capillary d') = dP_g (capillary d)
            \<and> (Q_in default_config < 151 \<longrightarrow> dP_l (capillary d) < dP_l (capillary d')
            \<and> dP_v (capillary d) < dP_v (capillary d'))"
    by blast
  then have 3: "\<exists>d'. vapor_chamber_model (default_config\<lparr>Q_in := 151\<rparr>) = Inr d'
            \<and> dP_cap (capillary d') = dP_cap (capillary d)
            \<and> dP_g (capillary d') = dP_g (capillary d)
            \<and> dP_l (capillary d) < dP_l (capillary d')
            \<and> dP_v (capillary d) < dP_v (capillary d')"
    unfolding q by auto
  from T have 4: "\<exists>d'. vapor_chamber_model (default_config\<lparr>Q_in := Q_max (capillary d)\<rparr>) = Inr d'
            \<and> dP_total (capillary d') = dP_cap (capillary d')"
    by blast
  show ?thesis using d 1 2 3 4 by blast
qed

subsection \<open>C2: the capillary-limit verdict\<close>

text \<open>
  Claim C2. The report says MET, with the requested \<open>Q_in\<close>, exactly when
  \<open>dP_cap \<ge> dP_total\<close> (a tie is MET); otherwise it says FAILED and the next line gives
  \<open>Q_max\<close> as the load the design is limited to.
\<close>

theorem capillary_verdict:
  assumes "vapor_chamber_model c = Inr d"
  shows "(dP_cap (capillary d) \<ge> dP_total (capillary d) \<longrightarrow>
            printed d ! 21 =
              [Lit ''YES! CAPILLARY LIMIT: MET for the specified heat load ('',
               Fixed (Q_in c) 1, Lit '' W).'']
          \<and> length (printed d) = 26)
       \<and> (\<not> dP_cap (capillary d) \<ge> dP_total (capillary d) \<longrightarrow>
            printed d ! 21 =
              [Lit ''NO! CAPILLARY LIMIT: FAILED. Wick cannot sustain the required flow.'']
          \<and> printed d ! 22 =
              [Lit ''   The design is limited to Q_max = '', Fixed (Q_max (capillary d)) 1,
               Lit '' W under these conditions.'']
          \<and> length (printed d) = 27)"
  unfolding model_stages(4)[OF assms]
  using results_summary_met(1,3) results_summary_failed(1,2,4) by blast

theorem capillary_verdict_witness:
  "(\<exists>d. vapor_chamber_model default_config = Inr d
      \<and> dP_cap (capillary d) \<ge> dP_total (capillary d)
      \<and> printed d ! 21 =
           [Lit ''YES! CAPILLARY LIMIT: MET for the specified heat load ('',
            Fixed 150 1, Lit '' W).'']
      \<and> length (printed d) = 26)
   \<and> (\<exists>d. vapor_chamber_model (default_config\<lparr>Q_in := 1000000\<rparr>) = Inr d
      \<and> \<not> dP_cap (capillary d) \<ge> dP_total (capillary d)
      \<and> printed d ! 21 =
           [Lit ''NO! CAPILLARY LIMIT: FAILED. Wick cannot sustain the required flow.'']
      \<and> printed d ! 22 =
           [Lit ''   The design is limited to Q_max = '', Fixed (Q_max (capillary d)) 1,
            Lit '' W under these conditions.'']
      \<and> length (printed d) = 27)"
proof
  obtain d where d: "vapor_chamber_model default_config = Inr d"
    using valid_config_runs[OF default_config_valid] by blast
  note met = default_capillary_limit_met[OF d]
  have q: "Q_in default_config = 150" by (simp add: default_config_def)
  show "\<exists>d. vapor_chamber_model default_config = Inr d
      \<and> dP_cap (capillary d) \<ge> dP_total (capillary d)
      \<and> printed d ! 21 =
           [Lit ''YES! CAPILLARY LIMIT: MET for the specified heat load ('',
            Fixed 150 1, Lit '' W).'']
      \<and> length (printed d) = 26"
    using capillary_verdict[OF d] met d unfolding q by blast
next
  have "valid_config (default_config\<lparr>Q_in := 1000000\<rparr>)"
    using default_config_valid by simp
  then obtain d where d: "vapor_chamber_model (default_config\<lparr>Q_in := 1000000\<rparr>) = Inr d"
    using valid_config_runs by blast
  note failed = overload_capillary_limit_failed[OF d]
  show "\<exists>d. vapor_chamber_model (default_config\<lparr>Q_in := 1000000\<rparr>) = Inr d
      \<and> \<not> dP_cap (capillary d) \<ge> dP_total (capillary d)
      \<and> printed d ! 21 =
           [Lit ''NO! CAPILLARY LIMIT: FAILED. Wick cannot sustain the required flow.'']
      \<and> printed d ! 22 =
           [Lit ''   The design is limited to Q_max = '', Fixed (Q_max (capillary d)) 1,
            Lit '' W under these conditions.'']
      \<and> length (printed d) = 27"
    using capillary_verdict[OF d] failed d by blast
qed

subsection \<open>C3: porosity outside (0,1)\<close>

text \<open>
  Claim C3 says that a porosity outside the open interval (0,1) raises a configuration
  error before any pressure or resistance formula is evaluated. The source has no such
  check. With the shipped constants and a wire of 1.27 mm on the 200 wires-per-inch
  evaporator mesh the porosity is \<open>1 - 5 * pi / 2 < 0\<close>, and the run completes.
\<close>

theorem porosity_not_validated_counterexample:
  "porosity_evap (default_config\<lparr>d_w_evap := 0.00127\<rparr>) < 0
   \<and> \<not> isl (vapor_chamber_model (default_config\<lparr>d_w_evap := 0.00127\<rparr>))"
proof -
  have "porosity_evap (default_config\<lparr>d_w_evap := 0.00127\<rparr>) = 1 - pi * (5 / 2)"
    by (simp add: porosity_evap_def default_config_def)
  moreover have "5 \<le> pi * (5 / 2)" using pi_ge_two by simp
  ultimately have "porosity_evap (default_config\<lparr>d_w_evap := 0.00127\<rparr>) < 0" by linarith
  then show ?thesis using thick_wire_runs by auto
qed

text \<open>
  Claim C3, amended. A porosity of exactly 1, on either wick, raises
  \<open>ZeroDivisionError\<close> at line 70, 71 or 72, before any pressure or resistance formula
  is evaluated. A porosity of exactly 0, on either wick, gives a zero permeability and
  raises \<open>ZeroDivisionError\<close> at one of lines 70, 71, 72, 91, 100 and 101, that is no
  later than the liquid pressure drops. Nothing is stated about the other porosities
  outside (0,1).
\<close>

theorem porosity_boundary_raises:
  "(porosity_evap c = 1 \<or> porosity_cond c = 1 \<longrightarrow>
      (\<exists>l. vapor_chamber_model c = Inl (ZeroDivisionError l) \<and> l \<in> {70, 71, 72}))
   \<and> (porosity_evap c = 0 \<or> porosity_cond c = 0 \<longrightarrow>
      (\<exists>l. vapor_chamber_model c = Inl (ZeroDivisionError l)
           \<and> l \<in> {70, 71, 72, 91, 100, 101}))"
proof (intro conjI impI)
  assume "porosity_evap c = 1 \<or> porosity_cond c = 1"
  from dpc_porosity_one[OF this]
  show "\<exists>l. vapor_chamber_model c = Inl (ZeroDivisionError l) \<and> l \<in> {70, 71, 72}"
    using model_Inl_dpc[of c] by auto
next
  assume "porosity_evap c = 0 \<or> porosity_cond c = 0"
  then show "\<exists>l. vapor_chamber_model c = Inl (ZeroDivisionError l)
           \<and> l \<in> {70, 71, 72, 91, 100, 101}"
    by (rule porosity_zero_raises)
qed

theorem porosity_boundary_raises_witness:
  "(\<exists>l. vapor_chamber_model (default_config\<lparr>d_w_evap := 0\<rparr>) = Inl (ZeroDivisionError l)
        \<and> l \<in> {70, 71, 72})
   \<and> (\<exists>l. vapor_chamber_model (default_config\<lparr>d_w_cond := 0.00127 / pi\<rparr>)
            = Inl (ZeroDivisionError l)
        \<and> l \<in> {70, 71, 72, 91, 100, 101})"
  using porosity_boundary_raises[of "default_config\<lparr>d_w_evap := 0\<rparr>"]
    porosity_boundary_raises[of "default_config\<lparr>d_w_cond := 0.00127 / pi\<rparr>"]
    porosity_evap_no_wire porosity_cond_tight_wire
  by blast

subsection \<open>C4: the thermal resistance network\<close>

text \<open>
  Claim C4. In every run that completes, \<open>R_total_ideal\<close> is the sum of exactly the five
  series resistances (evaporator wall, evaporator wick, the phase-change constant
  0.01 K/W, condenser wick, condenser wall), each given by its formula, and
  \<open>R_total_corrected\<close> is \<open>R_total_ideal\<close> times the experimental correction factor.
\<close>

theorem R_total_is_sum_of_five:
  assumes "vapor_chamber_model c = Inr d"
  shows "R_total_ideal (thermal d) =
           R_evap_wall (thermal d) + R_evap_wick (thermal d) + R_phase_change (thermal d)
           + R_cond_wick (thermal d) + R_cond_wall (thermal d)
       \<and> R_phase_change (thermal d) = 0.01
       \<and> R_evap_wall (thermal d) = t_evap_wall c / (k_shell c * A_evap (parameters d))
       \<and> R_evap_wick (thermal d) =
           t_evap_wick (parameters d) / (k_wick_evap (thermal d) * A_evap (parameters d))
       \<and> R_cond_wick (thermal d) =
           t_cond_wick (parameters d) / (k_wick_cond (thermal d) * A_cond (parameters d))
       \<and> R_cond_wall (thermal d) = t_cond_wall c / (k_shell c * A_cond (parameters d))
       \<and> R_total_corrected (thermal d) =
           R_total_ideal (thermal d) * experimental_correction_factor c"
  using trn_fields[OF model_stages(3)[OF assms]] by (simp only:)

theorem R_total_is_sum_of_five_witness:
  "\<exists>d. vapor_chamber_model default_config = Inr d
     \<and> R_total_ideal (thermal d) =
           R_evap_wall (thermal d) + R_evap_wick (thermal d) + 0.01
           + R_cond_wick (thermal d) + R_cond_wall (thermal d)
     \<and> R_total_corrected (thermal d) = R_total_ideal (thermal d) * 1.2"
proof -
  obtain d where d: "vapor_chamber_model default_config = Inr d"
    using valid_config_runs[OF default_config_valid] by blast
  have f: "experimental_correction_factor default_config = 1.2"
    by (simp add: default_config_def)
  show ?thesis using R_total_is_sum_of_five[OF d] d unfolding f by auto
qed

subsection \<open>C5: the total pressure drop\<close>

text \<open>
  Claim C5. In every run that completes, \<open>dP_total\<close> is \<open>dP_l + dP_v + dP_g\<close>, with no
  other term.
\<close>

theorem dP_total_is_sum:
  assumes "vapor_chamber_model c = Inr d"
  shows "dP_total (capillary d) = dP_l (capillary d) + dP_v (capillary d) + dP_g (capillary d)"
  using cpa_fields(11)[OF model_stages(2)[OF assms]] .

theorem dP_total_is_sum_witness:
  "\<exists>d. vapor_chamber_model default_config = Inr d
     \<and> dP_total (capillary d) = dP_l (capillary d) + dP_v (capillary d) + dP_g (capillary d)"
proof -
  obtain d where d: "vapor_chamber_model default_config = Inr d"
    using valid_config_runs[OF default_config_valid] by blast
  show ?thesis using dP_total_is_sum[OF d] d by blast
qed

subsection \<open>C6: the evaporator mesh alone sets the capillary pump\<close>

text \<open>
  Claim C6. The effective pore radius is \<open>1 / (2 * mesh_number_evap)\<close>, from the
  evaporator mesh count converted to wires per metre; \<open>dP_cap\<close> is
  \<open>2 * sigma * cos theta / rc_eff\<close>; and replacing the condenser mesh (count, wire
  diameter, layers) changes neither, whenever the run with the other mesh completes.
\<close>

theorem evaporator_mesh_sets_pump:
  assumes "vapor_chamber_model c = Inr d"
  shows "rc_eff (parameters d) = 1 / (2 * mesh_number_evap (parameters d))
       \<and> mesh_number_evap (parameters d) = mesh_number_evap_wpi c / 0.0254
       \<and> dP_cap (capillary d) =
           (2 * sigma c * cos (radians (theta_deg c))) / rc_eff (parameters d)
       \<and> (\<forall>m w n d'.
            vapor_chamber_model
              (c\<lparr>mesh_number_cond_wpi := m, d_w_cond := w, num_layers_cond := n\<rparr>) = Inr d'
            \<longrightarrow> rc_eff (parameters d') = rc_eff (parameters d)
                \<and> dP_cap (capillary d') = dP_cap (capillary d))"
proof -
  have formulas:
    "rc_eff (parameters x) = 1 / (2 * mesh_number_evap (parameters x))
       \<and> mesh_number_evap (parameters x) = mesh_number_evap_wpi k / 0.0254
       \<and> dP_cap (capillary x) =
           (2 * sigma k * cos (radians (theta_deg k))) / rc_eff (parameters x)"
    if "vapor_chamber_model k = Inr x" for k x
  proof -
    note s = model_stages[OF that]
    note f = dpc_fields[OF s(1)] and h = cpa_fields[OF s(2)]
    show ?thesis using f(8) f(2) h(3) unfolding f(1) h(2) by blast
  qed
  have "rc_eff (parameters d') = rc_eff (parameters d)
                \<and> dP_cap (capillary d') = dP_cap (capillary d)"
    if "vapor_chamber_model
              (c\<lparr>mesh_number_cond_wpi := m, d_w_cond := w, num_layers_cond := n\<rparr>) = Inr d'"
    for m w n d'
    using formulas[OF that] formulas[OF assms] by simp
  then show ?thesis using formulas[OF assms] by blast
qed

theorem evaporator_mesh_sets_pump_witness:
  "\<exists>d d'. vapor_chamber_model default_config = Inr d
     \<and> vapor_chamber_model
          (default_config\<lparr>mesh_number_cond_wpi := 100, d_w_cond := 0.0001,
                           num_layers_cond := 3\<rparr>) = Inr d'
     \<and> rc_eff (parameters d) = 1 / (2 * (200 / 0.0254))
     \<and> rc_eff (parameters d') = rc_eff (parameters d)
     \<and> dP_cap (capillary d') = dP_cap (capillary d)"
proof -
  obtain d where d: "vapor_chamber_model default_config = Inr d"
    using valid_config_runs[OF default_config_valid] by blast
  obtain d' where d': "vapor_chamber_model
          (default_config\<lparr>mesh_number_cond_wpi := 100, d_w_cond := 0.0001,
                           num_layers_cond := 3\<rparr>) = Inr d'"
    using valid_config_runs[OF valid_config_cond_mesh] by blast
  note T = evaporator_mesh_sets_pump[OF d]
  have w: "mesh_number_evap_wpi default_config = 200" by (simp add: default_config_def)
  from T have "rc_eff (parameters d) = 1 / (2 * mesh_number_evap (parameters d))"
    and "mesh_number_evap (parameters d) = 200 / 0.0254"
    unfolding w by blast+
  then have 1: "rc_eff (parameters d) = 1 / (2 * (200 / 0.0254))" by (simp only:)
  from T d' have 2: "rc_eff (parameters d') = rc_eff (parameters d)
     \<and> dP_cap (capillary d') = dP_cap (capillary d)" by blast
  show ?thesis using d d' 1 2 by blast
qed

subsection \<open>C7: the gravitational drop\<close>

text \<open>
  Claim C7. The gravitational drop is \<open>rho_l * g * L_eff * sin phi\<close> with \<open>g = 9.81\<close> and
  \<open>phi\<close> the orientation angle in radians; it is 0 when the angle is 0; and it enters
  \<open>dP_total\<close> with a plus sign whatever the sign of the angle.
\<close>

theorem dP_g_gravity:
  assumes "vapor_chamber_model c = Inr d"
  shows "dP_g (capillary d) =
           rho_l c * 9.81 * L_eff (parameters d) * sin (radians (phi_deg c))
       \<and> (phi_deg c = 0 \<longrightarrow> dP_g (capillary d) = 0)
       \<and> dP_total (capillary d) =
           dP_l (capillary d) + dP_v (capillary d)
           + rho_l c * 9.81 * L_eff (parameters d) * sin (radians (phi_deg c))"
proof -
  note f = dP_g_formula[OF assms]
  have "phi_deg c = 0 \<longrightarrow> dP_g (capillary d) = 0"
    unfolding f by (simp add: radians_def)
  moreover have "dP_total (capillary d) =
           dP_l (capillary d) + dP_v (capillary d)
           + rho_l c * 9.81 * L_eff (parameters d) * sin (radians (phi_deg c))"
    using cpa_fields(11)[OF model_stages(2)[OF assms]] unfolding f .
  ultimately show ?thesis using f by blast
qed

theorem dP_g_gravity_witness:
  "(\<exists>d. vapor_chamber_model default_config = Inr d \<and> dP_g (capillary d) = 0)
   \<and> (\<exists>d. vapor_chamber_model (default_config\<lparr>phi_deg := - 90\<rparr>) = Inr d
          \<and> dP_g (capillary d) = - (977.8 * 9.81 * 0.0225)
          \<and> dP_total (capillary d) =
               dP_l (capillary d) + dP_v (capillary d) - 977.8 * 9.81 * 0.0225)"
proof
  obtain d where d: "vapor_chamber_model default_config = Inr d"
    using valid_config_runs[OF default_config_valid] by blast
  have "phi_deg default_config = 0" by (simp add: default_config_def)
  then show "\<exists>d. vapor_chamber_model default_config = Inr d \<and> dP_g (capillary d) = 0"
    using dP_g_gravity[OF d] d by blast
next
  let ?c = "default_config\<lparr>phi_deg := - 90\<rparr>"
  have "valid_config ?c" using default_config_valid by simp
  then obtain d where d: "vapor_chamber_model ?c = Inr d"
    using valid_config_runs by blast
  have L: "L_eff (parameters d) = 0.0225"
    using dpc_fields(11)[OF model_stages(1)[OF d]] by (simp add: default_config_def)
  have r: "rho_l ?c = 977.8" "phi_deg ?c = - 90" by (simp_all add: default_config_def)
  have s: "sin (radians (- 90)) = - 1" unfolding radians_minus_90 by simp
  note g = dP_g_gravity[OF d, unfolded r L s]
  show "\<exists>d. vapor_chamber_model ?c = Inr d
          \<and> dP_g (capillary d) = - (977.8 * 9.81 * 0.0225)
          \<and> dP_total (capillary d) =
               dP_l (capillary d) + dP_v (capillary d) - 977.8 * 9.81 * 0.0225"
    using g d by (intro exI[of _ d]) simp
qed

subsection \<open>C8: a wick with no layers\<close>

text \<open>
  Claim C8 says that a layer count of 0 is either rejected as a configuration error or
  produces an explicit error at the resistance stage. The source checks nothing and the
  run never reaches the resistance stage: with the shipped constants and no evaporator
  layers it raises \<open>ZeroDivisionError\<close> at line 101, with no condenser layers at line
  100, both in the capillary section.
\<close>

theorem zero_layers_not_at_resistance_stage_counterexample:
  "vapor_chamber_model (default_config\<lparr>num_layers_evap := 0\<rparr>) = Inl (ZeroDivisionError 101)
   \<and> 101 \<notin> resistance_stage_lines
   \<and> vapor_chamber_model (default_config\<lparr>num_layers_cond := 0\<rparr>) = Inl (ZeroDivisionError 100)
   \<and> 100 \<notin> resistance_stage_lines"
  using default_zero_evap_layers default_zero_cond_layers
  by (simp add: resistance_stage_lines_def)

text \<open>
  Claim C8, amended. With a layer count of 0 on either wick the run raises
  \<open>ZeroDivisionError\<close>, in the derived-parameter section (lines 70 to 91) or at one of
  the two liquid pressure drops (lines 100 and 101, whose divisor holds the zero wick
  area). Every \<^verbatim>\<open>print\<close> comes later, so no infinite value reaches the report.
\<close>

theorem zero_layers_raise:
  assumes "num_layers_evap c = 0 \<or> num_layers_cond c = 0"
  shows "\<exists>l. vapor_chamber_model c = Inl (ZeroDivisionError l)
           \<and> l \<in> {70, 71, 72, 91, 100, 101}"
proof (cases "derived_parameter_calculation c")
  case (Inl e)
  then show ?thesis using dpc_error_lines[OF Inl] model_Inl_dpc[OF Inl] by auto
next
  case (Inr p)
  note f = dpc_fields[OF Inr]
  have "t_evap_wick p = 0 \<or> t_cond_wick p = 0"
    unfolding f(4) f(5) using assms by auto
  then have "A_wick_evap p = 0 \<or> A_wick_cond p = 0"
    unfolding f(14) f(15) by auto
  then have z: "rho_l c * A_wick_cond p * K_cond p * h_fg c = 0
         \<or> rho_l c * A_wick_evap p * K_evap p * h_fg c = 0" by auto
  have r: "rc_eff p \<noteq> 0" unfolding f(8) using f(18) by simp
  show ?thesis using cpa_zero_divisor[OF z r] model_Inl_cpa[OF Inr] by auto
qed

theorem zero_layers_raise_witness:
  "vapor_chamber_model (default_config\<lparr>num_layers_evap := 0\<rparr>) = Inl (ZeroDivisionError 101)
   \<and> (\<exists>l. vapor_chamber_model (default_config\<lparr>num_layers_cond := 0\<rparr>)
             = Inl (ZeroDivisionError l)
          \<and> l \<in> {70, 71, 72, 91, 100, 101})"
  using zero_layers_raise[of "default_config\<lparr>num_layers_evap := 0\<rparr>"]
    zero_layers_raise[of "default_config\<lparr>num_layers_cond := 0\<rparr>"]
    default_zero_evap_layers
  by simp

subsection \<open>C10: the shipped configuration\<close>

text \<open>
  Claim C10. With the constants written in the source the run completes: both porosities
  lie strictly between 0 and 1 and the divisor of every division of the pipeline is
  strictly positive, so no division by zero occurs.
\<close>

theorem default_config_is_safe:
  "\<exists>d. vapor_chamber_model default_config = Inr d
     \<and> 0 < epsilon_evap (parameters d) \<and> epsilon_evap (parameters d) < 1
     \<and> 0 < epsilon_cond (parameters d) \<and> epsilon_cond (parameters d) < 1
     \<and> 0 < 2 * mesh_number_evap (parameters d)
     \<and> 0 < 122 * (1 - epsilon_evap (parameters d))\<^sup>2
     \<and> 0 < 122 * (1 - epsilon_cond (parameters d))\<^sup>2
     \<and> 0 < t_vapor default_config + vc_width default_config
     \<and> 0 < rc_eff (parameters d)
     \<and> 0 < A_wick_evap (parameters d) \<and> 0 < A_wick_cond (parameters d)
     \<and> 0 < A_vapor (parameters d) \<and> 0 < h_fg default_config
     \<and> 0 < rho_l default_config * A_wick_cond (parameters d) * K_cond (parameters d)
             * h_fg default_config
     \<and> 0 < rho_l default_config * A_wick_evap (parameters d) * K_evap (parameters d)
             * h_fg default_config
     \<and> 0 < 2 * rho_v default_config * A_vapor (parameters d) * (d_h_vapor (parameters d))\<^sup>2
             * h_fg default_config
     \<and> 0 < liquid_pressure_term (capillary d) + vapor_pressure_term (capillary d)
     \<and> 0 < k_shell default_config + k_l default_config
             - (1 - epsilon_evap (parameters d)) * (k_shell default_config - k_l default_config)
     \<and> 0 < k_shell default_config + k_l default_config
             - (1 - epsilon_cond (parameters d)) * (k_shell default_config - k_l default_config)
     \<and> 0 < k_shell default_config * A_evap (parameters d)
     \<and> 0 < k_wick_evap (thermal d) * A_evap (parameters d)
     \<and> 0 < k_wick_cond (thermal d) * A_cond (parameters d)
     \<and> 0 < k_shell default_config * A_cond (parameters d)"
proof -
  note v = default_config_valid
  obtain d where d: "vapor_chamber_model default_config = Inr d"
    using valid_config_runs[OF v] by blast
  note s = model_stages[OF d]
  note pos = valid_dpc_pos[OF v s(1)]
  note ct = valid_cpa_terms[OF v s(1)]
  note cp = valid_cpa_pos[OF v s(1) s(2)]
  note tt = valid_trn_terms[OF v s(1)]
  note tf = trn_fields[OF s(3)]
  have k: "0 < k_shell default_config" "0 < k_l default_config" "0 < h_fg default_config"
    "0 < t_vapor default_config + vc_width default_config"
    by (simp_all add: default_config_def)
  have m: "0 < 2 * mesh_number_evap (parameters d)" using pos(5) by simp
  have e1: "0 < 122 * (1 - epsilon_evap (parameters d))\<^sup>2" using pos(2) by simp
  have e2: "0 < 122 * (1 - epsilon_cond (parameters d))\<^sup>2" using pos(4) by simp
  have sum: "0 < liquid_pressure_term (capillary d) + vapor_pressure_term (capillary d)"
    using cp by linarith
  have ke: "0 < k_wick_evap (thermal d)" unfolding tf(1)
    using k(2) divide_pos_pos[OF tt(3,1)] by (rule mult_pos_pos)
  have kc: "0 < k_wick_cond (thermal d)" unfolding tf(2)
    using k(2) divide_pos_pos[OF tt(4,2)] by (rule mult_pos_pos)
  have a1: "0 < k_shell default_config * A_evap (parameters d)"
    using k(1) pos(10) by (rule mult_pos_pos)
  have a2: "0 < k_wick_evap (thermal d) * A_evap (parameters d)"
    using ke pos(10) by (rule mult_pos_pos)
  have a3: "0 < k_wick_cond (thermal d) * A_cond (parameters d)"
    using kc pos(11) by (rule mult_pos_pos)
  have a4: "0 < k_shell default_config * A_cond (parameters d)"
    using k(1) pos(11) by (rule mult_pos_pos)
  show ?thesis
    using d pos(1-4) m e1 e2 k(4) pos(6) pos(12) pos(13) pos(14) k(3) ct(1-3) sum tt(1,2)
      a1 a2 a3 a4
    by (intro exI[of _ d] conjI)
qed

end
